theory Spec2Isabelle
  imports Main "HOL-Library.AList"
begin

section \<open>Python values\<close>

text \<open>
  A Python \<open>str\<close> is a sequence of Unicode code points; a code point is a natural
  number. \<open>ascii\<close> embeds an ASCII literal.
\<close>

type_synonym pystr = "nat list"

definition ascii :: "string \<Rightarrow> pystr" where
  "ascii s = map of_char s"

text \<open>The exceptions the modelled code can raise.\<close>

datatype py_error =
  TypeError | KeyError | AttributeError | StopIteration | ValueError | IndexError
  | SyntaxError | UnicodeDecodeError | ImportError | OSError | OtherError pystr

text \<open>
  The values the code handles are what \<open>json\<close> loads and what the code builds from
  them: \<open>None\<close>, booleans, numbers, strings, lists and dicts. A dict keeps insertion
  order, so it is an association list; \<open>d[k] = v\<close> is \<open>AList.update k v d\<close> (the value
  replaced in place when the key is there, the pair appended otherwise). Keys are
  compared structurally; that Python takes equal numbers of different types
  (\<open>1\<close>, \<open>1.0\<close>, \<open>True\<close>) for the same key is not modelled. A float is its
  mantissa and binary exponent; no modelled code computes with numbers.
\<close>

datatype pyval =
  PNone
  | PBool bool
  | PInt int
  | PFloat int int
  | PStr pystr
  | PList "pyval list"
  | PDict "(pyval \<times> pyval) list"

abbreviation lit :: "string \<Rightarrow> pyval" where
  "lit s \<equiv> PStr (ascii s)"

text \<open>\<open>x.get(k, default)\<close>: only a dict has the method.\<close>

definition dict_get :: "(pyval \<times> pyval) list \<Rightarrow> string \<Rightarrow> pyval \<Rightarrow> pyval" where
  "dict_get kvs k dflt = (case map_of kvs (lit k) of Some v \<Rightarrow> v | None \<Rightarrow> dflt)"

definition py_get :: "pyval \<Rightarrow> string \<Rightarrow> pyval \<Rightarrow> py_error + pyval" where
  "py_get x k dflt =
     (case x of
        PDict kvs \<Rightarrow> Inr (dict_get kvs k dflt)
      | _ \<Rightarrow> Inl AttributeError)"

text \<open>\<open>x.items()\<close>\<close>

definition py_items :: "pyval \<Rightarrow> py_error + (pyval \<times> pyval) list" where
  "py_items x = (case x of PDict kvs \<Rightarrow> Inr kvs | _ \<Rightarrow> Inl AttributeError)"

text \<open>\<open>sub in s\<close> for two strings: \<open>sub\<close> occurs in \<open>s\<close> as a contiguous run.\<close>

fun str_contains :: "pystr \<Rightarrow> pystr \<Rightarrow> bool" where
  "str_contains sub [] = (sub = [])"
| "str_contains sub (c # cs) = (take (length sub) (c # cs) = sub \<or> str_contains sub cs)"

text \<open>Sequencing of computations that can raise: the first exception ends the run.\<close>

fun py_bind :: "py_error + 'a \<Rightarrow> ('a \<Rightarrow> py_error + 'b) \<Rightarrow> py_error + 'b" where
  "py_bind (Inl e) f = Inl e"
| "py_bind (Inr x) f = f x"

text \<open>A list comprehension \<open>[f(x) for x in xs]\<close> whose body can raise.\<close>

fun map_err :: "('a \<Rightarrow> py_error + 'b) \<Rightarrow> 'a list \<Rightarrow> py_error + 'b list" where
  "map_err f [] = Inr []"
| "map_err f (x # xs) = py_bind (f x) (\<lambda>y. py_bind (map_err f xs) (\<lambda>ys. Inr (y # ys)))"

text \<open>
  \<open>x[k]\<close> for a string key: KeyError on a dict without the key, TypeError on every
  other value (a list or string wants an integer index, the rest is not subscriptable).
\<close>

definition py_getitem :: "pyval \<Rightarrow> string \<Rightarrow> py_error + pyval" where
  "py_getitem x k =
     (case x of
        PDict kvs \<Rightarrow> (case map_of kvs (lit k) of Some v \<Rightarrow> Inr v | None \<Rightarrow> Inl KeyError)
      | _ \<Rightarrow> Inl TypeError)"

text \<open>
  \<open>for x in v\<close>: the elements of a list, the keys of a dict, the characters of a
  string; TypeError on a value that is not iterable.
\<close>

definition py_iter :: "pyval \<Rightarrow> py_error + pyval list" where
  "py_iter v =
     (case v of
        PList xs \<Rightarrow> Inr xs
      | PDict kvs \<Rightarrow> Inr (map fst kvs)
      | PStr s \<Rightarrow> Inr (map (\<lambda>c. PStr [c]) s)
      | _ \<Rightarrow> Inl TypeError)"

text \<open>A list or a dict cannot be a dict key.\<close>

definition hashable :: "pyval \<Rightarrow> bool" where
  "hashable v = (case v of PList _ \<Rightarrow> False | PDict _ \<Rightarrow> False | _ \<Rightarrow> True)"

text \<open>\<open>{**a, **b}\<close> continues the dict \<open>a\<close> with the items of \<open>b\<close> in their order.\<close>

definition dict_merge :: "(pyval \<times> pyval) list \<Rightarrow> (pyval \<times> pyval) list \<Rightarrow> (pyval \<times> pyval) list" where
  "dict_merge a b = fold (\<lambda>(k, v). AList.update k v) b a"

section \<open>util/text.py\<close>

record unicode_tables =
  uni_word :: "nat \<Rightarrow> bool"
  uni_digit :: "nat \<Rightarrow> bool"

definition ascii_letter :: "nat \<Rightarrow> bool" where
  "ascii_letter c = ((65 \<le> c \<and> c \<le> 90) \<or> (97 \<le> c \<and> c \<le> 122))"

definition ascii_digit :: "nat \<Rightarrow> bool" where
  "ascii_digit c = (48 \<le> c \<and> c \<le> 57)"

text \<open>\<open>\w\<close> and \<open>\d\<close> of a \<open>str\<close> pattern: fixed on ASCII, the Unicode tables beyond.\<close>

definition re_w :: "unicode_tables \<Rightarrow> nat \<Rightarrow> bool" where
  "re_w U c = (if c < 128 then ascii_letter c \<or> ascii_digit c \<or> c = 95 else uni_word U c)"

definition re_d :: "unicode_tables \<Rightarrow> nat \<Rightarrow> bool" where
  "re_d U c = (if c < 128 then ascii_digit c else uni_digit U c)"

text \<open>
  \<open>re.sub(r"\W|^(?=\d)", "_", name)\<close>: every character that \<open>\W\<close> matches becomes
  an underscore (code point 95); at position 0, where \<open>\W\<close> does not match and a digit
  follows, the empty match of the second alternative inserts one.
\<close>

definition re_sub_nonword :: "unicode_tables \<Rightarrow> pystr \<Rightarrow> pystr" where
  "re_sub_nonword U name =
     (case name of
        [] \<Rightarrow> []
      | c # cs \<Rightarrow>
          (if \<not> re_w U c then [95] else if re_d U c then [95, c] else [c])
          @ map (\<lambda>x. if re_w U x then x else 95) cs)"

text \<open>\<open>re.match(r"^[A-Za-z_]", name)\<close>\<close>

definition re_match_start :: "pystr \<Rightarrow> bool" where
  "re_match_start name = (case name of [] \<Rightarrow> False | c # _ \<Rightarrow> ascii_letter c \<or> c = 95)"

definition normalize_string :: "unicode_tables \<Rightarrow> pystr \<Rightarrow> pystr" where
  "normalize_string U name =
     (let name1 = re_sub_nonword U name
      in if \<not> re_match_start name1 then 95 # name1 else name1)"

section \<open>toolspec.py\<close>

text \<open>
  What \<open>docstring_parser.parse\<close> yields: \<open>long_description\<close> and the declared
  parameters. The library types \<open>type_name\<close>, \<open>description\<close> and \<open>is_optional\<close> as
  optional; the parameter's \<open>description\<close> is \<open>arg_description\<close> here, the name
  \<open>description\<close> being the field of \<open>ToolSpec\<close>.
\<close>

record DocstringParam =
  arg_name :: pystr
  type_name :: "pystr option"
  arg_description :: "pystr option"
  is_optional :: "bool option"

record Docstring =
  long_description :: "pystr option"
  params :: "DocstringParam list"

record ToolSpec =
  name :: pyval
  description :: pyval
  param_props :: "(pyval \<times> pyval) list"
  param_required :: pyval

definition opt_str :: "pystr option \<Rightarrow> pyval" where
  "opt_str s = (case s of None \<Rightarrow> PNone | Some t \<Rightarrow> PStr t)"

text \<open>\<open>ToolSpec()\<close>\<close>

definition ToolSpec_init :: ToolSpec where
  "ToolSpec_init = \<lparr>name = lit [], description = lit [], param_props = [], param_required = PList []\<rparr>"

definition docstring_param_obj :: "DocstringParam \<Rightarrow> pyval" where
  "docstring_param_obj p =
     PDict [(lit ''type'', opt_str (type_name p)),
            (lit ''description'', opt_str (arg_description p))]"

text \<open>
  The methods mutate \<open>self\<close>; the model returns the object as the call leaves it,
  with the exception raised, if any. The loop of \<open>create_from_docstring\<close>:
  \<open>not param.is_optional\<close> is true for \<open>None\<close> and \<open>False\<close>; \<open>"optional" not in None\<close>
  raises TypeError; \<open>append\<close> exists on a list only.
\<close>

fun docstring_params :: "DocstringParam list \<Rightarrow> ToolSpec \<Rightarrow> ToolSpec \<times> py_error option" where
  "docstring_params [] self = (self, None)"
| "docstring_params (p # ps) self =
     (let self1 = self\<lparr>param_props :=
                   AList.update (PStr (arg_name p)) (docstring_param_obj p) (param_props self)\<rparr>
      in if is_optional p = Some True then docstring_params ps self1
         else (case arg_description p of
                 None \<Rightarrow> (self1, Some TypeError)
               | Some d \<Rightarrow>
                   if str_contains (ascii ''optional'') d then docstring_params ps self1
                   else (case param_required self1 of
                           PList r \<Rightarrow>
                             docstring_params ps
                               (self1\<lparr>param_required := PList (r @ [PStr (arg_name p)])\<rparr>)
                         | _ \<Rightarrow> (self1, Some AttributeError))))"

definition create_from_docstring ::
  "('d \<Rightarrow> py_error + Docstring) \<Rightarrow> ToolSpec \<Rightarrow> pystr \<Rightarrow> 'd \<Rightarrow> ToolSpec \<times> py_error option" where
  "create_from_docstring parse self nm docstring =
     (let self1 = self\<lparr>name := PStr nm\<rparr>
      in case parse docstring of
           Inl e \<Rightarrow> (self1, Some e)
         | Inr doc_dict \<Rightarrow>
             docstring_params (params doc_dict)
               (self1\<lparr>description := opt_str (long_description doc_dict)\<rparr>))"

text \<open>
  \<open>create_from_schema_json\<close>. The unwrapping: \<open>.keys()\<close> exists on a dict only, and
  \<open>function_spec["function"]\<close> raises KeyError when the key is missing.
\<close>

definition unwrap_function :: "pyval \<Rightarrow> py_error + pyval" where
  "unwrap_function function_spec =
     (case function_spec of
        PDict kvs \<Rightarrow>
          (if map_of kvs (lit ''type'') = Some (lit ''function'')
           then (case map_of kvs (lit ''function'') of
                   Some f \<Rightarrow> Inr f
                 | None \<Rightarrow> Inl KeyError)
           else Inr function_spec)
      | _ \<Rightarrow> Inl AttributeError)"

definition schema_param_obj :: "pyval \<Rightarrow> py_error + pyval" where
  "schema_param_obj param_details =
     (case py_get param_details ''type'' (lit ''string'') of
        Inl e \<Rightarrow> Inl e
      | Inr t \<Rightarrow>
          (case py_get param_details ''description'' (lit []) of
             Inl e \<Rightarrow> Inl e
           | Inr d \<Rightarrow> Inr (PDict [(lit ''type'', t), (lit ''description'', d)])))"

fun schema_params :: "(pyval \<times> pyval) list \<Rightarrow> ToolSpec \<Rightarrow> ToolSpec \<times> py_error option" where
  "schema_params [] self = (self, None)"
| "schema_params ((param_name, param_details) # rest) self =
     (case schema_param_obj param_details of
        Inl e \<Rightarrow> (self, Some e)
      | Inr param_obj \<Rightarrow>
          schema_params rest
            (self\<lparr>param_props := AList.update param_name param_obj (param_props self)\<rparr>))"

definition create_from_schema_json :: "ToolSpec \<Rightarrow> pyval \<Rightarrow> ToolSpec \<times> py_error option" where
  "create_from_schema_json self function_spec0 =
     (case unwrap_function function_spec0 of
        Inl e \<Rightarrow> (self, Some e)
      | Inr function_spec \<Rightarrow>
     (case py_get function_spec ''name'' (lit []) of
        Inl e \<Rightarrow> (self, Some e)
      | Inr n \<Rightarrow>
     (let self1 = self\<lparr>name := n\<rparr> in
      case py_get function_spec ''description'' (lit []) of
        Inl e \<Rightarrow> (self1, Some e)
      | Inr d \<Rightarrow>
     (let self2 = self1\<lparr>description := d\<rparr> in
      case py_get function_spec ''parameters'' (PDict []) of
        Inl e \<Rightarrow> (self2, Some e)
      | Inr parameters \<Rightarrow>
     (case py_get parameters ''properties'' parameters of
        Inl e \<Rightarrow> (self2, Some e)
      | Inr props \<Rightarrow>
     (case py_items props of
        Inl e \<Rightarrow> (self2, Some e)
      | Inr items \<Rightarrow>
     (case schema_params items self2 of
        (self3, Some e) \<Rightarrow> (self3, Some e)
      | (self3, None) \<Rightarrow>
     (case py_get parameters ''required'' (PList []) of
        Inl e \<Rightarrow> (self3, Some e)
      | Inr r \<Rightarrow> (self3\<lparr>param_required := r\<rparr>, None)))))))))"

text \<open>\<open>get_spec_dict\<close>: a projection of the object.\<close>

definition get_spec_dict :: "ToolSpec \<Rightarrow> bool \<Rightarrow> pyval" where
  "get_spec_dict self function_tag =
     (let spec = PDict [(lit ''name'', name self),
                        (lit ''description'', description self),
                        (lit ''parameters'',
                           PDict [(lit ''type'', lit ''object''),
                                  (lit ''properties'', PDict (param_props self)),
                                  (lit ''required'', param_required self)])]
      in if function_tag then PDict [(lit ''type'', lit ''function''), (lit ''function'', spec)]
         else spec)"

section \<open>spec.py\<close>

text \<open>
  The library functions whose implementation is not part of the repository are
  parameters of the model: the Unicode tables of \<open>re\<close>, \<open>str.upper\<close>, \<open>str()\<close> of a
  value that is not a string, and \<open>jsonref.replace_refs\<close>.
\<close>

record pylib =
  unicode :: unicode_tables
  str_upper :: "pystr \<Rightarrow> pystr"
  py_str :: "pyval \<Rightarrow> pystr"
  replace_refs :: "pyval \<Rightarrow> pyval"

text \<open>A replacement field \<open>{v}\<close> of an f-string.\<close>

definition py_format :: "pylib \<Rightarrow> pyval \<Rightarrow> pystr" where
  "py_format L v = (case v of PStr s \<Rightarrow> s | _ \<Rightarrow> py_str L v)"

text \<open>\<open>method.upper()\<close>: only a string has the method.\<close>

definition py_upper :: "pylib \<Rightarrow> pyval \<Rightarrow> py_error + pystr" where
  "py_upper L v = (case v of PStr s \<Rightarrow> Inr (str_upper L s) | _ \<Rightarrow> Inl AttributeError)"

text \<open>
  \<open>text.normalize_string(operation_id)\<close> on whatever \<open>spec.get("operationId")\<close>
  returned: \<open>re.sub\<close> raises TypeError on a value that is not a string, \<open>None\<close> included.
\<close>

definition normalize_string_arg :: "pylib \<Rightarrow> pyval \<Rightarrow> py_error + pystr" where
  "normalize_string_arg L v =
     (case v of PStr s \<Rightarrow> Inr (normalize_string (unicode L) s) | _ \<Rightarrow> Inl TypeError)"

text \<open>
  \<open>for param in params_common_list + spec.get("parameters", [])\<close>: two lists are
  concatenated, two strings too (and iterated by character); every other pair raises
  TypeError, in \<open>+\<close> or, for the sum of two numbers, in the iteration.
\<close>

definition params_iter :: "pyval \<Rightarrow> pyval \<Rightarrow> py_error + pyval list" where
  "params_iter a b =
     (case (a, b) of
        (PList xs, PList ys) \<Rightarrow> Inr (xs @ ys)
      | (PStr s, PStr t) \<Rightarrow> Inr (map (\<lambda>c. PStr [c]) (s @ t))
      | _ \<Rightarrow> Inl TypeError)"

text \<open>
  The value of one entry of \<open>headers\<close> or \<open>params\<close>: the schema of the parameter, or
  \<open>{"type": param["type"]}\<close> without one, continued with the fields of the parameter
  other than \<open>name\<close>, \<open>in\<close> and \<open>schema\<close>. \<open>**\<close> of a value that is not a dict raises
  TypeError.
\<close>

definition param_value :: "(pyval \<times> pyval) list \<Rightarrow> py_error + pyval" where
  "param_value param =
     py_bind
       (case map_of param (lit ''schema'') of
          Some schema \<Rightarrow>
            (case schema of PDict kvs \<Rightarrow> Inr (dict_merge [] kvs) | _ \<Rightarrow> Inl TypeError)
        | None \<Rightarrow>
            (case map_of param (lit ''type'') of
               Some t \<Rightarrow> Inr [(lit ''type'', t)]
             | None \<Rightarrow> Inl KeyError))
       (\<lambda>a. Inr (PDict (dict_merge a
               (filter (\<lambda>(k, v). k \<notin> set [lit ''name'', lit ''in'', lit ''schema'']) param))))"

text \<open>
  The dict comprehension over the parameters whose \<open>in\<close> is \<open>loc\<close>: the condition,
  then the key \<open>param["name"]\<close>, then the value, then the insertion, which raises
  TypeError on a key that is not hashable.
\<close>

fun param_dict_loop ::
  "string \<Rightarrow> pyval list \<Rightarrow> (pyval \<times> pyval) list \<Rightarrow> py_error + (pyval \<times> pyval) list" where
  "param_dict_loop loc [] acc = Inr acc"
| "param_dict_loop loc (param # rest) acc =
     py_bind (py_getitem param ''in'') (\<lambda>i.
       if i = lit loc then
         py_bind (py_getitem param ''name'') (\<lambda>nm.
         py_bind (case param of PDict kvs \<Rightarrow> param_value kvs | _ \<Rightarrow> Inl TypeError) (\<lambda>v.
           if hashable nm then param_dict_loop loc rest (AList.update nm v acc)
           else Inl TypeError))
       else param_dict_loop loc rest acc)"

definition param_dict :: "string \<Rightarrow> pyval \<Rightarrow> (pyval \<times> pyval) list \<Rightarrow> py_error + pyval" where
  "param_dict loc params_common_list spec =
     py_bind (params_iter params_common_list (dict_get spec ''parameters'' (PList []))) (\<lambda>ps.
     py_bind (param_dict_loop loc ps []) (\<lambda>d. Inr (PDict d)))"

text \<open>
  The \<open>data\<close> entry: the \<open>properties\<close> of the schema of the first media type of the
  request body's content, \<open>{}\<close> without a request body. \<open>next(iter(content))\<close> raises
  StopIteration on an empty content; \<open>.get\<close> on a value that is not a dict (\<open>None\<close>
  for a missing key included) raises AttributeError.
\<close>

definition request_data :: "(pyval \<times> pyval) list \<Rightarrow> py_error + pyval" where
  "request_data spec =
     (case map_of spec (lit ''requestBody'') of
        None \<Rightarrow> Inr (PDict [])
      | Some request_body \<Rightarrow>
          py_bind (py_get request_body ''content'' PNone) (\<lambda>content.
            case content of
              PDict media \<Rightarrow>
                (case media of
                   [] \<Rightarrow> Inl StopIteration
                 | (media_type, media_spec) # _ \<Rightarrow>
                     py_bind (py_get media_spec ''schema'' PNone) (\<lambda>schema.
                       py_get schema ''properties'' PNone))
            | _ \<Rightarrow> Inl AttributeError))"

text \<open>
  The body of the inner loop for a key other than \<open>parameters\<close>: the normalised
  operation id and the function spec. The entries of the dict literal are evaluated in
  the order they are written.
\<close>

definition convert_operation ::
  "pylib \<Rightarrow> pyval list \<Rightarrow> pyval \<Rightarrow> pyval \<Rightarrow> pyval \<Rightarrow> pyval \<Rightarrow> py_error + pystr \<times> pyval" where
  "convert_operation L servers_urls path method params_common_list spec_with_ref =
     (case replace_refs L spec_with_ref of
        PDict spec \<Rightarrow>
          py_bind (normalize_string_arg L (dict_get spec ''operationId'' PNone)) (\<lambda>operation_id.
          py_bind (py_upper L method) (\<lambda>upper.
          py_bind (param_dict ''header'' params_common_list spec) (\<lambda>headers.
          py_bind (param_dict ''query'' params_common_list spec) (\<lambda>query.
          py_bind (request_data spec) (\<lambda>data.
            Inr (operation_id,
              PDict
                [(lit ''name'', PStr (ascii ''requests.'' @ py_format L method)),
                 (lit ''description'',
                    PStr (ascii ''Sends a '' @ upper @ ascii '' request to the specified URL.'')),
                 (lit ''parameters'',
                    PDict
                      [(lit ''type'', lit ''dict''),
                       (lit ''properties'',
                          PDict
                            [(lit ''url'',
                                PDict
                                  [(lit ''type'', lit ''string''),
                                   (lit ''description'',
                                      PStr (py_format L (dict_get spec ''summary'' (lit []))
                                            @ ascii ''. ''
                                            @ py_format L (dict_get spec ''description'' (lit [])))),
                                   (lit ''enum'',
                                      PList (map (\<lambda>url. PStr (py_format L url @ py_format L path))
                                               servers_urls)),
                                   (lit ''required'', PBool True)]),
                             (lit ''headers'', headers),
                             (lit ''timeout'',
                                PDict
                                  [(lit ''type'', PList [lit ''number'', lit ''tuple'']),
                                   (lit ''description'',
                                      lit ''How many seconds to wait for the server to send data before giving up.''),
                                   (lit ''required'', PBool False)]),
                             (lit ''params'', query),
                             (lit ''data'', data)])])]))))))
      | _ \<Rightarrow> Inl AttributeError)"

text \<open>
  The loop over the keys of one path item: the key \<open>parameters\<close> sets the common
  parameter list for the keys after it.
\<close>

fun path_methods_loop ::
  "pylib \<Rightarrow> pyval list \<Rightarrow> pyval \<Rightarrow> (pyval \<times> pyval) list \<Rightarrow> pyval \<Rightarrow> (pyval \<times> pyval) list
     \<Rightarrow> py_error + (pyval \<times> pyval) list" where
  "path_methods_loop L servers_urls path [] params_common_list functions = Inr functions"
| "path_methods_loop L servers_urls path ((method, spec_with_ref) # rest) params_common_list functions =
     (if method = lit ''parameters''
      then path_methods_loop L servers_urls path rest spec_with_ref functions
      else (case convert_operation L servers_urls path method params_common_list spec_with_ref of
              Inl e \<Rightarrow> Inl e
            | Inr (operation_id, function) \<Rightarrow>
                path_methods_loop L servers_urls path rest params_common_list
                  (AList.update (PStr operation_id) function functions)))"

fun paths_loop ::
  "pylib \<Rightarrow> pyval list \<Rightarrow> (pyval \<times> pyval) list \<Rightarrow> (pyval \<times> pyval) list
     \<Rightarrow> py_error + (pyval \<times> pyval) list" where
  "paths_loop L servers_urls [] functions = Inr functions"
| "paths_loop L servers_urls ((path, path_methods) # rest) functions =
     (case py_items path_methods of
        Inl e \<Rightarrow> Inl e
      | Inr methods \<Rightarrow>
          (case path_methods_loop L servers_urls path methods (PList []) functions of
             Inl e \<Rightarrow> Inl e
           | Inr functions1 \<Rightarrow> paths_loop L servers_urls rest functions1))"

text \<open>\<open>[s["url"] for s in openapi_spec["servers"]]\<close>\<close>

definition get_servers_urls :: "pyval \<Rightarrow> py_error + pyval list" where
  "get_servers_urls openapi_spec =
     py_bind (py_getitem openapi_spec ''servers'') (\<lambda>servers.
     py_bind (py_iter servers) (\<lambda>ss.
       map_err (\<lambda>s. py_getitem s ''url'') ss))"

definition openapi_to_requests :: "pylib \<Rightarrow> pyval \<Rightarrow> py_error + (pyval \<times> pyval) list" where
  "openapi_to_requests L openapi_spec =
     py_bind (get_servers_urls openapi_spec) (\<lambda>servers_urls.
     py_bind (py_getitem openapi_spec ''paths'') (\<lambda>paths.
     py_bind (py_items paths) (\<lambda>path_items.
       paths_loop L servers_urls path_items [])))"

text \<open>
  An instance of the library for documents in ASCII without references: no code point
  beyond ASCII is a word character or a digit, \<open>upper\<close> maps \<open>a\<close> to \<open>z\<close> to
  \<open>A\<close> to \<open>Z\<close>, and \<open>replace_refs\<close> returns the document as it is. \<open>str()\<close> of a
  value that is not a string is not used by the examples.
\<close>

definition ascii_lib :: pylib where
  "ascii_lib =
     \<lparr>unicode = \<lparr>uni_word = (\<lambda>_. False), uni_digit = (\<lambda>_. False)\<rparr>,
      str_upper = map (\<lambda>c. if 97 \<le> c \<and> c \<le> 122 then c - 32 else c),
      py_str = (\<lambda>_. []),
      replace_refs = (\<lambda>v. v)\<rparr>"

text \<open>Reading a nested entry \<open>v[k1][k2]...\<close> of a result, where it exists.\<close>

fun dict_path :: "pyval \<Rightarrow> string list \<Rightarrow> pyval option" where
  "dict_path v [] = Some v"
| "dict_path v (k # ks) =
     (case v of
        PDict kvs \<Rightarrow> (case map_of kvs (lit k) of Some w \<Rightarrow> dict_path w ks | None \<Rightarrow> None)
      | _ \<Rightarrow> None)"

section \<open>util/methods.py\<close>

subsection \<open>Syntax trees\<close>

text \<open>
  An expression node is what the code asks of it: the result of \<open>ast.literal_eval\<close>
  (ValueError on an expression that is not a literal; the value \<open>None\<close> is \<open>None\<close>
  here, any other value is of the type \<open>'v\<close>) and the string of \<open>ast.dump\<close>.
\<close>

record 'v expr =
  literal_eval :: "py_error + 'v option"
  dump :: pystr

record 'v arg =
  arg :: pystr
  annotation :: "'v expr option"

record 'v arguments =
  args :: "'v arg list"
  defaults :: "'v expr list"
  kwonlyargs :: "'v arg list"
  kw_defaults :: "'v expr option list"
  vararg :: "'v arg option"
  kwarg :: "'v arg option"

text \<open>
  The nodes of a module that the code tells apart: a class definition with its name
  and body, a function definition with its name, arguments, docstring (what
  \<open>ast.get_docstring\<close> returns) and body, and any other node with its children (the
  module itself, \<open>if\<close>, \<open>try\<close>, an async function, ...). Children that are
  expressions are left out: no class or function definition is below them, and
  leaving them out does not change the order in which \<open>ast.walk\<close> yields the rest.
\<close>

datatype 'v node =
  ClassDef pystr "'v node list"
  | FunctionDef pystr "'v arguments" "pystr option" "'v node list"
  | OtherNode "'v node list"

fun child_nodes :: "'v node \<Rightarrow> 'v node list" where
  "child_nodes (ClassDef nm body) = body"
| "child_nodes (FunctionDef nm a doc body) = body"
| "child_nodes (OtherNode children) = children"

text \<open>
  \<open>ast.walk\<close>: breadth first, from a queue that holds the start node; each node taken
  from the front has its children appended at the back.
\<close>

function walk_queue :: "'v node list \<Rightarrow> 'v node list" where
  "walk_queue [] = []"
| "walk_queue (n # todo) = n # walk_queue (todo @ child_nodes n)"
  by pat_completeness auto
termination
proof (relation "measure (size_list size)")
  show "wf (measure (size_list size))"
    by simp
next
  fix n :: "'v node" and todo :: "'v node list"
  have "size_list size (child_nodes n) < size n"
    by (cases n) simp_all
  then show "(todo @ child_nodes n, n # todo) \<in> measure (size_list size)"
    by (simp add: size_list_append)
qed

definition ast_walk :: "'v node \<Rightarrow> 'v node list" where
  "ast_walk n = walk_queue [n]"

subsection \<open>parse_function_arguments\<close>

text \<open>
  One entry of \<open>args_info\<close>: \<open>{"default": ..., "annotation": ...}\<close>. No default and
  the default \<open>None\<close> are both \<open>None\<close>, as in the code.
\<close>

record 'v arg_info =
  arg_default :: "'v option"
  annotation_dump :: "pystr option"

definition make_arg_info :: "'v option \<Rightarrow> 'v arg \<Rightarrow> 'v arg_info" where
  "make_arg_info d a = \<lparr>arg_default = d, annotation_dump = map_option dump (annotation a)\<rparr>"

text \<open>
  The loop over the positional arguments; \<open>i\<close> is \<open>arguments.args.index(arg)\<close>, the
  position of the node in the list. The trailing arguments are paired with the
  defaults; \<open>literal_eval\<close> raises on a default that is not a literal.
\<close>

fun positional_args ::
  "'v arguments \<Rightarrow> nat \<Rightarrow> 'v arg list \<Rightarrow> (pystr \<times> 'v arg_info) list
     \<Rightarrow> py_error + (pystr \<times> 'v arg_info) list" where
  "positional_args arguments i [] args_info = Inr args_info"
| "positional_args arguments i (a # rest) args_info =
     py_bind
       (if defaults arguments \<noteq> [] then
          (let default_index = int (length (args arguments)) - int (length (defaults arguments))
           in if int i \<ge> default_index then
                (let k = nat (int i - default_index)
                 in if k < length (defaults arguments)
                    then literal_eval (defaults arguments ! k)
                    else Inl IndexError)
              else Inr None)
        else Inr None)
       (\<lambda>d. positional_args arguments (Suc i) rest
              (AList.update (arg a) (make_arg_info d a) args_info))"

text \<open>The loop over the keyword-only arguments, paired with \<open>kw_defaults\<close> by position.\<close>

fun keyword_only_args ::
  "'v arguments \<Rightarrow> nat \<Rightarrow> 'v arg list \<Rightarrow> (pystr \<times> 'v arg_info) list
     \<Rightarrow> py_error + (pystr \<times> 'v arg_info) list" where
  "keyword_only_args arguments j [] args_info = Inr args_info"
| "keyword_only_args arguments j (a # rest) args_info =
     py_bind
       (if kw_defaults arguments \<noteq> [] then
          (if j < length (kw_defaults arguments) then
             (case kw_defaults arguments ! j of
                None \<Rightarrow> Inr None
              | Some e \<Rightarrow> literal_eval e)
           else Inl IndexError)
        else Inr None)
       (\<lambda>d. keyword_only_args arguments (Suc j) rest
              (AList.update (arg a) (make_arg_info d a) args_info))"

definition variadic_arg :: "'v arg option \<Rightarrow> (pystr \<times> 'v arg_info) list \<Rightarrow> (pystr \<times> 'v arg_info) list" where
  "variadic_arg v args_info =
     (case v of None \<Rightarrow> args_info | Some a \<Rightarrow> AList.update (arg a) (make_arg_info None a) args_info)"

definition parse_function_arguments :: "'v arguments \<Rightarrow> py_error + (pystr \<times> 'v arg_info) list" where
  "parse_function_arguments arguments =
     py_bind (positional_args arguments 0 (args arguments) []) (\<lambda>info1.
     py_bind (keyword_only_args arguments 0 (kwonlyargs arguments) info1) (\<lambda>info2.
       Inr (variadic_arg (kwarg arguments) (variadic_arg (vararg arguments) info2))))"

subsection \<open>Finding methods\<close>

record 'v FoundMethod =
  method_name :: pystr
  func_def :: "'v node"
  package_name :: pystr
  class_name :: "pystr option"
  doc_string :: "pystr option"
  parameters :: "(pystr \<times> 'v arg_info) list option"

text \<open>
  What the code reads from the interpreter and the file system: \<open>find_spec\<close> (it can
  raise, and returns \<open>None\<close> for a package that is not found) with the
  \<open>submodule_search_locations\<close> of the spec, \<open>os.walk\<close>, the result of opening, reading
  and parsing a file, and, for \<open>find_method_direct\<close>, the result of importing a module
  and parsing its source.
\<close>

record 'v environment =
  find_spec :: "pystr \<Rightarrow> py_error + pystr list option option"
  os_walk :: "pystr \<Rightarrow> (pystr \<times> pystr list \<times> pystr list) list"
  read_parse :: "pystr \<Rightarrow> py_error + 'v node"
  import_source :: "pystr \<Rightarrow> py_error + 'v node"

text \<open>\<open>len(methods) >= expected_num != -1\<close>, a chained comparison.\<close>

definition limit_reached :: "int \<Rightarrow> 'a list \<Rightarrow> bool" where
  "limit_reached expected_num methods = (int (length methods) \<ge> expected_num \<and> expected_num \<noteq> - 1)"

text \<open>\<open>rsplit(".", 1)\<close> unpacked into two names: ValueError without a dot (code point 46).\<close>

definition rsplit_dot :: "pystr \<Rightarrow> py_error + pystr \<times> pystr" where
  "rsplit_dot s =
     (if 46 \<in> set s
      then Inr (rev (tl (dropWhile (\<lambda>c. c \<noteq> 46) (rev s))), rev (takeWhile (\<lambda>c. c \<noteq> 46) (rev s)))
      else Inl ValueError)"

text \<open>The loop of \<open>find_method_direct\<close>; falling off its end returns \<open>None\<close>.\<close>

fun direct_loop ::
  "pystr \<Rightarrow> pystr \<Rightarrow> pystr \<Rightarrow> int \<Rightarrow> 'v node list \<Rightarrow> 'v FoundMethod list
     \<Rightarrow> py_error + 'v FoundMethod list option" where
  "direct_loop method_name_full module_name mname expected_num [] methods = Inr None"
| "direct_loop method_name_full module_name mname expected_num (n # nodes) methods =
     (case n of
        FunctionDef nm a doc body \<Rightarrow>
          if nm = mname then
            py_bind (parse_function_arguments a) (\<lambda>ps.
              let methods1 = methods @
                    [\<lparr>method_name = method_name_full, func_def = n, package_name = module_name,
                      class_name = None, doc_string = doc, parameters = Some ps\<rparr>]
              in if int (length methods1) \<ge> expected_num then Inr (Some methods1)
                 else direct_loop method_name_full module_name mname expected_num nodes methods1)
          else direct_loop method_name_full module_name mname expected_num nodes methods
      | _ \<Rightarrow> direct_loop method_name_full module_name mname expected_num nodes methods)"

definition find_method_direct ::
  "'v environment \<Rightarrow> pystr \<Rightarrow> int \<Rightarrow> py_error + 'v FoundMethod list option" where
  "find_method_direct env method_name_full expected_num =
     py_bind (rsplit_dot method_name_full) (\<lambda>(module_name0, mname).
       let module_name = (if module_name0 = ascii ''requests'' then ascii ''requests.api''
                          else module_name0)
       in py_bind (import_source env module_name) (\<lambda>parsed_content.
            direct_loop method_name_full module_name mname expected_num
              (ast_walk parsed_content) []))"

text \<open>
  The loops of \<open>_find_methods_in_file\<close>. A loop returns the list and whether it left
  through the \<open>return\<close> inside it. \<open>if class_name and ...\<close> takes \<open>None\<close> and the empty
  string for no filter.
\<close>

fun class_body_loop ::
  "pystr \<Rightarrow> pystr \<Rightarrow> pystr option \<Rightarrow> int \<Rightarrow> pystr \<Rightarrow> 'v node list \<Rightarrow> 'v FoundMethod list
     \<Rightarrow> 'v FoundMethod list \<times> bool" where
  "class_body_loop pkg mname cname expected_num node_name [] methods = (methods, False)"
| "class_body_loop pkg mname cname expected_num node_name (item # items) methods =
     (if (case cname of None \<Rightarrow> False | Some c \<Rightarrow> c \<noteq> [] \<and> c \<noteq> node_name)
      then class_body_loop pkg mname cname expected_num node_name items methods
      else (case item of
              FunctionDef nm a doc body \<Rightarrow>
                if mname \<noteq> nm \<and> mname \<noteq> ascii ''*''
                then class_body_loop pkg mname cname expected_num node_name items methods
                else (let methods1 = methods @
                            [\<lparr>method_name = nm, func_def = item, package_name = pkg,
                              class_name = Some node_name, doc_string = doc, parameters = None\<rparr>]
                      in if limit_reached expected_num methods1 then (methods1, True)
                         else class_body_loop pkg mname cname expected_num node_name items methods1)
            | _ \<Rightarrow> class_body_loop pkg mname cname expected_num node_name items methods))"

fun class_nodes_loop ::
  "pystr \<Rightarrow> pystr \<Rightarrow> pystr option \<Rightarrow> int \<Rightarrow> 'v node list \<Rightarrow> 'v FoundMethod list
     \<Rightarrow> 'v FoundMethod list" where
  "class_nodes_loop pkg mname cname expected_num [] methods = methods"
| "class_nodes_loop pkg mname cname expected_num (n # nodes) methods =
     (case n of
        ClassDef node_name body \<Rightarrow>
          (case class_body_loop pkg mname cname expected_num node_name body methods of
             (methods1, True) \<Rightarrow> methods1
           | (methods1, False) \<Rightarrow> class_nodes_loop pkg mname cname expected_num nodes methods1)
      | _ \<Rightarrow> class_nodes_loop pkg mname cname expected_num nodes methods)"

text \<open>
  \<open>_find_methods_in_file\<close>: SyntaxError and UnicodeDecodeError are caught, and the
  \<open>return\<close> of the handler returns \<open>None\<close>; any other exception propagates.
\<close>

definition find_methods_in_file ::
  "'v environment \<Rightarrow> pystr \<Rightarrow> pystr \<Rightarrow> pystr \<Rightarrow> pystr option \<Rightarrow> int
     \<Rightarrow> py_error + 'v FoundMethod list option" where
  "find_methods_in_file env file_path pkg mname cname expected_num =
     (case read_parse env file_path of
        Inl SyntaxError \<Rightarrow> Inr None
      | Inl UnicodeDecodeError \<Rightarrow> Inr None
      | Inl e \<Rightarrow> Inl e
      | Inr parsed_content \<Rightarrow>
          Inr (Some (class_nodes_loop pkg mname cname expected_num (ast_walk parsed_content) [])))"

text \<open>\<open>file.endswith(suffix)\<close> and \<open>os.path.join\<close> of two components (POSIX).\<close>

definition str_endswith :: "pystr \<Rightarrow> pystr \<Rightarrow> bool" where
  "str_endswith s suffix = (length suffix \<le> length s \<and> drop (length s - length suffix) s = suffix)"

definition os_path_join :: "pystr \<Rightarrow> pystr \<Rightarrow> pystr" where
  "os_path_join a b =
     (if b \<noteq> [] \<and> hd b = 47 then b
      else if a = [] \<or> last a = 47 then a @ b
      else a @ [47] @ b)"

text \<open>
  The loops of \<open>_find_methods_in_package\<close>. \<open>methods += None\<close> raises TypeError.
\<close>

fun files_loop ::
  "'v environment \<Rightarrow> pystr \<Rightarrow> pystr \<Rightarrow> pystr \<Rightarrow> pystr option \<Rightarrow> int \<Rightarrow> pystr list
     \<Rightarrow> 'v FoundMethod list \<Rightarrow> py_error + 'v FoundMethod list \<times> bool" where
  "files_loop env root pkg mname cname expected_num [] methods = Inr (methods, False)"
| "files_loop env root pkg mname cname expected_num (file # files) methods =
     (if str_endswith file (ascii ''.py'') then
        py_bind (find_methods_in_file env (os_path_join root file) pkg mname cname expected_num)
          (\<lambda>found.
             case found of
               None \<Rightarrow> Inl TypeError
             | Some ms \<Rightarrow>
                 (let methods1 = methods @ ms
                  in if limit_reached expected_num methods1 then Inr (methods1, True)
                     else files_loop env root pkg mname cname expected_num files methods1))
      else files_loop env root pkg mname cname expected_num files methods)"

fun walk_loop ::
  "'v environment \<Rightarrow> pystr \<Rightarrow> pystr \<Rightarrow> pystr option \<Rightarrow> int
     \<Rightarrow> (pystr \<times> pystr list \<times> pystr list) list \<Rightarrow> 'v FoundMethod list
     \<Rightarrow> py_error + 'v FoundMethod list" where
  "walk_loop env pkg mname cname expected_num [] methods = Inr methods"
| "walk_loop env pkg mname cname expected_num ((root, dirs, files) # rest) methods =
     py_bind (files_loop env root pkg mname cname expected_num files methods)
       (\<lambda>(methods1, returned).
          if returned then Inr methods1
          else walk_loop env pkg mname cname expected_num rest methods1)"

definition find_methods_in_package ::
  "'v environment \<Rightarrow> pystr \<Rightarrow> pystr \<Rightarrow> pystr \<Rightarrow> pystr option \<Rightarrow> int
     \<Rightarrow> py_error + 'v FoundMethod list" where
  "find_methods_in_package env package_path pkg mname cname expected_num =
     walk_loop env pkg mname cname expected_num (os_walk env package_path) []"

text \<open>
  \<open>find_method_in_packages\<close>. \<open>submodule_search_locations[0]\<close> raises TypeError on
  \<open>None\<close> (a module that is not a package) and IndexError on an empty list.
\<close>

fun packages_loop ::
  "'v environment \<Rightarrow> pystr \<Rightarrow> pystr option \<Rightarrow> int \<Rightarrow> pystr list \<Rightarrow> 'v FoundMethod list
     \<Rightarrow> py_error + 'v FoundMethod list" where
  "packages_loop env mname cname expected_num [] methods = Inr methods"
| "packages_loop env mname cname expected_num (pkg # rest) methods =
     py_bind (find_spec env pkg) (\<lambda>package_spec.
       case package_spec of
         None \<Rightarrow> packages_loop env mname cname expected_num rest methods
       | Some locations \<Rightarrow>
           py_bind (case locations of
                      None \<Rightarrow> Inl TypeError
                    | Some [] \<Rightarrow> Inl IndexError
                    | Some (package_path # _) \<Rightarrow> Inr package_path) (\<lambda>package_path.
           py_bind (find_methods_in_package env package_path pkg mname cname expected_num) (\<lambda>ms.
             let methods1 = methods @ ms
             in if limit_reached expected_num methods1 then Inr methods1
                else packages_loop env mname cname expected_num rest methods1)))"

definition find_method_in_packages ::
  "'v environment \<Rightarrow> pystr list \<Rightarrow> pystr \<Rightarrow> pystr option \<Rightarrow> int
     \<Rightarrow> py_error + 'v FoundMethod list" where
  "find_method_in_packages env package_names mname cname expected_num =
     packages_loop env mname cname expected_num package_names []"

subsection \<open>Example environments\<close>

text \<open>
  A function definition without arguments, docstring or body, and an environment with
  the single package \<open>pkg\<close> at \<open>/pkg\<close>, whose directory holds the given files with
  the given results of reading and parsing them (the same table answers the import of
  a module by name).
\<close>

definition no_arguments :: "unit arguments" where
  "no_arguments =
     \<lparr>args = [], defaults = [], kwonlyargs = [], kw_defaults = [], vararg = None, kwarg = None\<rparr>"

definition def_of :: "string \<Rightarrow> unit node" where
  "def_of nm = FunctionDef (ascii nm) no_arguments None []"

definition one_package :: "(string \<times> (py_error + unit node)) list \<Rightarrow> unit environment" where
  "one_package files =
     \<lparr>find_spec = (\<lambda>p. if p = ascii ''pkg'' then Inr (Some (Some [ascii ''/pkg''])) else Inr None),
      os_walk = (\<lambda>p. if p = ascii ''/pkg'' then [(ascii ''/pkg'', [], map (ascii \<circ> fst) files)] else []),
      read_parse = (\<lambda>f. case map_of (map (\<lambda>(nm, r). (ascii ''/pkg/'' @ ascii nm, r)) files) f of
                          Some r \<Rightarrow> r | None \<Rightarrow> Inl OSError),
      import_source = (\<lambda>m. case map_of (map (\<lambda>(nm, r). (ascii nm, r)) files) m of
                          Some r \<Rightarrow> r | None \<Rightarrow> Inl ImportError)\<rparr>"

section \<open>Notions of the specification\<close>

text \<open>
  The key under which the converter stores an operation, its normalised
  \<open>operationId\<close>, and the \<open>enum\<close> of the \<open>url\<close> parameter of a function spec.
\<close>

definition operation_key :: "pylib \<Rightarrow> pyval \<Rightarrow> pyval option" where
  "operation_key L spec_with_ref =
     (case replace_refs L spec_with_ref of
        PDict spec \<Rightarrow>
          (case dict_get spec ''operationId'' PNone of
             PStr oid \<Rightarrow> Some (PStr (normalize_string (unicode L) oid))
           | _ \<Rightarrow> None)
      | _ \<Rightarrow> None)"

definition url_enum :: "pyval \<Rightarrow> pyval option" where
  "url_enum function = dict_path function [''parameters'', ''properties'', ''url'', ''enum'']"

text \<open>The function definitions of a given name in a module, in the order of \<open>ast.walk\<close>.\<close>

definition is_function_named :: "pystr \<Rightarrow> 'v node \<Rightarrow> bool" where
  "is_function_named mname n = (case n of FunctionDef nm a doc body \<Rightarrow> nm = mname | _ \<Rightarrow> False)"

definition function_defs_named :: "pystr \<Rightarrow> 'v node \<Rightarrow> 'v node list" where
  "function_defs_named mname tree = filter (is_function_named mname) (ast_walk tree)"

text \<open>
  The two optionality signals of a docstring parameter: it is marked optional, or the
  substring \<open>optional\<close> occurs in its description text.
\<close>

definition optionality_signal :: "DocstringParam \<Rightarrow> bool" where
  "optionality_signal p =
     (is_optional p = Some True
      \<or> (case arg_description p of None \<Rightarrow> False | Some d \<Rightarrow> str_contains (ascii ''optional'') d))"

text \<open>A parameter object with the defaults for a missing type and description.\<close>

definition with_defaults :: "(pyval \<times> pyval) list \<Rightarrow> pyval" where
  "with_defaults kv =
     PDict [(lit ''type'', dict_get kv ''type'' (lit ''string'')),
            (lit ''description'', dict_get kv ''description'' (lit []))]"

section \<open>Properties of normalize_string\<close>

lemma re_w_underscore: "re_w U 95"
  by (simp add: re_w_def)

lemma re_sub_nonword_word: "\<forall>c \<in> set (re_sub_nonword U s). re_w U c"
  by (cases s) (auto simp: re_sub_nonword_def re_w_underscore)

lemma normalize_string_word: "\<forall>c \<in> set (normalize_string U s). re_w U c"
  using re_sub_nonword_word [of U s]
  by (auto simp: normalize_string_def Let_def re_w_underscore)

lemma normalize_string_start: "re_match_start (normalize_string U s)"
  by (simp add: normalize_string_def Let_def re_match_start_def)

lemma start_not_digit: "ascii_letter c \<or> c = 95 \<Longrightarrow> \<not> re_d U c"
  by (auto simp: re_d_def ascii_letter_def ascii_digit_def)

lemma re_sub_nonword_fixed:
  assumes "\<forall>c \<in> set s. re_w U c" and "re_match_start s"
  shows "re_sub_nonword U s = s"
proof (cases s)
  case Nil
  then show ?thesis by (simp add: re_sub_nonword_def)
next
  case (Cons c cs)
  with assms have "re_w U c" and "\<not> re_d U c" and "\<forall>x \<in> set cs. re_w U x"
    by (auto simp: re_match_start_def start_not_digit)
  then have "map (\<lambda>x. if re_w U x then x else 95) cs = cs"
    by (simp add: map_idI)
  with Cons \<open>re_w U c\<close> \<open>\<not> re_d U c\<close> show ?thesis
    by (simp add: re_sub_nonword_def)
qed

text \<open>
  C4: for every string, the empty one included, normalising a normalised string
  returns it unchanged.
\<close>

theorem normalize_string_idempotent:
  "normalize_string U (normalize_string U s) = normalize_string U s"
proof -
  let ?r = "normalize_string U s"
  have "re_sub_nonword U ?r = ?r"
    by (rule re_sub_nonword_fixed [OF normalize_string_word normalize_string_start])
  then show ?thesis
    using normalize_string_start [of U s]
    by (simp add: normalize_string_def [of U ?r] Let_def)
qed

section \<open>Properties of ToolSpec\<close>

lemma ascii_eq_iff [simp]: "ascii s = ascii t \<longleftrightarrow> s = t"
  by (simp add: ascii_def inj_map_eq_map [OF inj_of_char])

lemma ascii_simps:
  "ascii [] = []" "ascii (c # cs) = of_char c # ascii cs"
  by (simp_all add: ascii_def)


lemma docstring_params_ok:
  assumes "\<forall>p \<in> set ps. is_optional p \<noteq> Some True \<longrightarrow> arg_description p \<noteq> None"
    and "param_required self = PList r"
  shows "docstring_params ps self =
     (self\<lparr>param_props :=
             fold (\<lambda>p. AList.update (PStr (arg_name p)) (docstring_param_obj p)) ps (param_props self),
           param_required := PList (r @ map (\<lambda>p. PStr (arg_name p)) (filter (\<lambda>p. \<not> optionality_signal p) ps))\<rparr>,
      None)"
  using assms
proof (induction ps arbitrary: self r)
  case Nil
  then show ?case by simp
next
  case (Cons p ps)
  then show ?case
    by (auto simp: Let_def optionality_signal_def split: option.splits)
qed

lemma fold_param_last:
  "arg_name p \<notin> arg_name ` set post \<Longrightarrow>
   map_of (fold (\<lambda>p. AList.update (PStr (arg_name p)) (f p)) (pre @ p # post) al) (PStr (arg_name p))
     = Some (f p)"
proof (induction post rule: rev_induct)
  case Nil
  then show ?case by (simp add: update_conv')
next
  case (snoc x xs)
  then show ?case by (auto simp: update_conv')
qed

text \<open>
  C7, as the code behaves: when every parameter that is not marked optional has a
  description (and \<open>param_required\<close> is a list), every parameter of the docstring is
  recorded in \<open>param_props\<close> under its name with its type and description, a name
  declared again later keeping the later declaration, and its name is appended to
  \<open>param_required\<close> unless it is marked optional or the substring \<open>optional\<close>
  occurs in its description; either signal alone is enough.
\<close>

theorem create_from_docstring_params:
  assumes "parse docstring = Inr doc"
    and "\<forall>p \<in> set (params doc). is_optional p \<noteq> Some True \<longrightarrow> arg_description p \<noteq> None"
    and "param_required self = PList r"
  shows "\<exists>self'. create_from_docstring parse self nm docstring = (self', None)
     \<and> (\<forall>pre p post. params doc = pre @ p # post \<and> arg_name p \<notin> arg_name ` set post \<longrightarrow>
            map_of (param_props self') (PStr (arg_name p))
              = Some (PDict [(lit ''type'', opt_str (type_name p)),
                             (lit ''description'', opt_str (arg_description p))]))
     \<and> param_required self'
           = PList (r @ map (\<lambda>p. PStr (arg_name p))
                         (filter (\<lambda>p. \<not> optionality_signal p) (params doc)))"
proof -
  let ?self2 = "self\<lparr>name := PStr nm, description := opt_str (long_description doc)\<rparr>"
  have req: "param_required ?self2 = PList r"
    using assms(3) by simp
  have run: "create_from_docstring parse self nm docstring = docstring_params (params doc) ?self2"
    using assms(1) by (simp add: create_from_docstring_def)
  have last: "map_of (fold (\<lambda>p. AList.update (PStr (arg_name p)) (docstring_param_obj p))
                 (params doc) al) (PStr (arg_name p)) = Some (docstring_param_obj p)"
    if "params doc = pre @ p # post" and "arg_name p \<notin> arg_name ` set post" for pre p post al
    unfolding that(1) using that(2) by (rule fold_param_last)
  show ?thesis
    unfolding run docstring_params_ok [OF assms(2) req]
  proof (intro exI conjI allI impI)
    fix pre p post
    assume "params doc = pre @ p # post \<and> arg_name p \<notin> arg_name ` set post"
    then have "map_of (fold (\<lambda>p. AList.update (PStr (arg_name p)) (docstring_param_obj p))
                 (params doc) (param_props ?self2)) (PStr (arg_name p)) = Some (docstring_param_obj p)"
      using last by blast
    then show "map_of (param_props (?self2\<lparr>param_props :=
             fold (\<lambda>p. AList.update (PStr (arg_name p)) (docstring_param_obj p)) (params doc)
               (param_props ?self2),
           param_required := PList (r @ map (\<lambda>p. PStr (arg_name p))
             (filter (\<lambda>p. \<not> optionality_signal p) (params doc)))\<rparr>)) (PStr (arg_name p))
       = Some (PDict [(lit ''type'', opt_str (type_name p)),
                      (lit ''description'', opt_str (arg_description p))])"
      by (simp add: docstring_param_obj_def)
  qed simp_all
qed

theorem create_from_docstring_params_witness:
  "\<exists>self'.
     create_from_docstring
       (\<lambda>_. Inr \<lparr>long_description = None,
                    params = [\<lparr>arg_name = ascii ''a'', type_name = Some (ascii ''int''),
                                arg_description = Some (ascii ''count''), is_optional = None\<rparr>,
                              \<lparr>arg_name = ascii ''b'', type_name = None,
                                arg_description = Some (ascii ''an optional b''),
                                is_optional = Some False\<rparr>]\<rparr>)
       ToolSpec_init (ascii ''f'') () = (self', None)
     \<and> map_of (param_props self') (lit ''b'')
           = Some (PDict [(lit ''type'', PNone), (lit ''description'', lit ''an optional b'')])
     \<and> param_required self' = PList [lit ''a'']"
proof -
  let ?a = "\<lparr>arg_name = ascii ''a'', type_name = Some (ascii ''int''),
              arg_description = Some (ascii ''count''), is_optional = None\<rparr>"
  let ?b = "\<lparr>arg_name = ascii ''b'', type_name = None,
              arg_description = Some (ascii ''an optional b''), is_optional = Some False\<rparr>"
  let ?doc = "\<lparr>long_description = None, params = [?a, ?b]\<rparr>"
  let ?parse = "\<lambda>_::unit. Inr ?doc :: py_error + Docstring"
  have h1: "?parse () = Inr ?doc" by simp
  have h2: "\<forall>p \<in> set (params ?doc). is_optional p \<noteq> Some True \<longrightarrow> arg_description p \<noteq> None"
    by simp
  have h3: "param_required ToolSpec_init = PList []"
    by (simp add: ToolSpec_init_def)
  have sa: "\<not> optionality_signal ?a"
    by (simp add: optionality_signal_def ascii_def)
  have sb: "optionality_signal ?b"
    by (simp add: optionality_signal_def ascii_def)
  from create_from_docstring_params
         [where parse = ?parse and docstring = "()" and doc = ?doc and self = ToolSpec_init
            and r = "[]" and nm = "ascii ''f''", OF h1 h2 h3]
  obtain self' where
    run: "create_from_docstring ?parse ToolSpec_init (ascii ''f'') () = (self', None)"
    and props: "\<forall>pre p post. params ?doc = pre @ p # post \<and> arg_name p \<notin> arg_name ` set post \<longrightarrow>
            map_of (param_props self') (PStr (arg_name p))
              = Some (PDict [(lit ''type'', opt_str (type_name p)),
                             (lit ''description'', opt_str (arg_description p))])"
    and req: "param_required self'
           = PList ([] @ map (\<lambda>p. PStr (arg_name p))
                         (filter (\<lambda>p. \<not> optionality_signal p) (params ?doc)))"
    by blast
  from props [rule_format, of "[?a]" ?b "[]"]
  have "map_of (param_props self') (lit ''b'')
           = Some (PDict [(lit ''type'', PNone), (lit ''description'', lit ''an optional b'')])"
    by (simp add: opt_str_def)
  moreover from req sa sb have "param_required self' = PList [lit ''a'']"
    by simp
  ultimately show ?thesis using run by blast
qed

text \<open>
  C7 as stated fails: \<open>"optional" not in param.description\<close> raises TypeError on the
  parameter \<open>y\<close>, whose description is \<open>None\<close>, so the parameter \<open>z\<close> after it is never
  recorded; and of the two declarations of \<open>x\<close> only the type and description of the
  second are recorded.
\<close>

theorem create_from_docstring_params_counterexample:
  "snd (create_from_docstring
       (\<lambda>_. Inr \<lparr>long_description = None,
                    params = [\<lparr>arg_name = ascii ''x'', type_name = Some (ascii ''int''),
                                arg_description = Some (ascii ''first''), is_optional = None\<rparr>,
                              \<lparr>arg_name = ascii ''x'', type_name = Some (ascii ''str''),
                                arg_description = Some (ascii ''second''), is_optional = None\<rparr>,
                              \<lparr>arg_name = ascii ''y'', type_name = Some (ascii ''int''),
                                arg_description = None, is_optional = None\<rparr>,
                              \<lparr>arg_name = ascii ''z'', type_name = Some (ascii ''int''),
                                arg_description = Some (ascii ''last''), is_optional = None\<rparr>]\<rparr>)
       ToolSpec_init (ascii ''f'') ()) = Some TypeError
   \<and> map_of (param_props (fst (create_from_docstring
       (\<lambda>_. Inr \<lparr>long_description = None,
                    params = [\<lparr>arg_name = ascii ''x'', type_name = Some (ascii ''int''),
                                arg_description = Some (ascii ''first''), is_optional = None\<rparr>,
                              \<lparr>arg_name = ascii ''x'', type_name = Some (ascii ''str''),
                                arg_description = Some (ascii ''second''), is_optional = None\<rparr>,
                              \<lparr>arg_name = ascii ''y'', type_name = Some (ascii ''int''),
                                arg_description = None, is_optional = None\<rparr>,
                              \<lparr>arg_name = ascii ''z'', type_name = Some (ascii ''int''),
                                arg_description = Some (ascii ''last''), is_optional = None\<rparr>]\<rparr>)
       ToolSpec_init (ascii ''f'') ()))) (lit ''z'') = None
   \<and> map_of (param_props (fst (create_from_docstring
       (\<lambda>_. Inr \<lparr>long_description = None,
                    params = [\<lparr>arg_name = ascii ''x'', type_name = Some (ascii ''int''),
                                arg_description = Some (ascii ''first''), is_optional = None\<rparr>,
                              \<lparr>arg_name = ascii ''x'', type_name = Some (ascii ''str''),
                                arg_description = Some (ascii ''second''), is_optional = None\<rparr>,
                              \<lparr>arg_name = ascii ''y'', type_name = Some (ascii ''int''),
                                arg_description = None, is_optional = None\<rparr>,
                              \<lparr>arg_name = ascii ''z'', type_name = Some (ascii ''int''),
                                arg_description = Some (ascii ''last''), is_optional = None\<rparr>]\<rparr>)
       ToolSpec_init (ascii ''f'') ()))) (lit ''x'')
       = Some (PDict [(lit ''type'', lit ''str''), (lit ''description'', lit ''second'')])
   \<and> param_required (fst (create_from_docstring
       (\<lambda>_. Inr \<lparr>long_description = None,
                    params = [\<lparr>arg_name = ascii ''x'', type_name = Some (ascii ''int''),
                                arg_description = Some (ascii ''first''), is_optional = None\<rparr>,
                              \<lparr>arg_name = ascii ''x'', type_name = Some (ascii ''str''),
                                arg_description = Some (ascii ''second''), is_optional = None\<rparr>,
                              \<lparr>arg_name = ascii ''y'', type_name = Some (ascii ''int''),
                                arg_description = None, is_optional = None\<rparr>,
                              \<lparr>arg_name = ascii ''z'', type_name = Some (ascii ''int''),
                                arg_description = Some (ascii ''last''), is_optional = None\<rparr>]\<rparr>)
       ToolSpec_init (ascii ''f'') ())) = PList [lit ''x'', lit ''x'']"
  by (simp add: create_from_docstring_def ToolSpec_init_def docstring_param_obj_def opt_str_def
        ascii_simps)

lemma schema_param_obj_dict: "schema_param_obj (PDict kv) = Inr (with_defaults kv)"
  by (simp add: schema_param_obj_def py_get_def with_defaults_def)

lemma schema_params_frame:
  "k \<notin> fst ` set items \<Longrightarrow>
   map_of (param_props (fst (schema_params items self))) k = map_of (param_props self) k"
  by (induction items self rule: schema_params.induct)
     (auto simp: update_conv' split: sum.splits)

lemma schema_params_ok:
  "\<forall>(k, d) \<in> set items. \<exists>kv. d = PDict kv \<Longrightarrow> snd (schema_params items self) = None"
  by (induction items self rule: schema_params.induct)
     (auto simp: schema_param_obj_dict split: sum.splits)

lemma schema_params_entry:
  "distinct (map fst items) \<Longrightarrow> (k, PDict kv) \<in> set items \<Longrightarrow>
   snd (schema_params items self) = None \<Longrightarrow>
   map_of (param_props (fst (schema_params items self))) k = Some (with_defaults kv)"
proof (induction items self rule: schema_params.induct)
  case (1 self)
  then show ?case by simp
next
  case (2 param_name param_details rest self)
  show ?case
  proof (cases "schema_param_obj param_details")
    case (Inl e)
    with 2 show ?thesis by simp
  next
    case (Inr obj)
    let ?self1 = "self\<lparr>param_props := AList.update param_name obj (param_props self)\<rparr>"
    show ?thesis
    proof (cases "(k, PDict kv) \<in> set rest")
      case True
      with 2 Inr show ?thesis by simp
    next
      case False
      with 2 have eq: "param_name = k" "param_details = PDict kv" by auto
      with 2 have "k \<notin> fst ` set rest" by simp
      then have "map_of (param_props (fst (schema_params rest ?self1))) k
                  = map_of (param_props ?self1) k"
        by (rule schema_params_frame)
      with Inr eq show ?thesis
        by (simp add: update_conv' schema_param_obj_dict)
    qed
  qed
qed

lemma create_from_schema_json_run:
  assumes "unwrap_function fs = Inr (PDict f)"
    and "dict_get f ''parameters'' (PDict []) = PDict ps"
    and "dict_get ps ''properties'' (PDict ps) = PDict items"
    and "snd (schema_params items
               (self\<lparr>name := dict_get f ''name'' (lit []),
                     description := dict_get f ''description'' (lit [])\<rparr>)) = None"
  shows "create_from_schema_json self fs =
     ((fst (schema_params items
              (self\<lparr>name := dict_get f ''name'' (lit []),
                    description := dict_get f ''description'' (lit [])\<rparr>)))
        \<lparr>param_required := dict_get ps ''required'' (PList [])\<rparr>, None)"
  using assms
  by (auto simp: create_from_schema_json_def py_get_def py_items_def Let_def
           split: prod.splits option.splits)

text \<open>
  C8, as the code behaves: \<open>create_from_schema_json\<close> reads the property map from
  \<open>parameters.properties\<close> and, where that layer is omitted, from \<open>parameters\<close>
  itself, every key of which is then a parameter. When every value of the property
  map is a dict, every entry is recorded with type \<open>string\<close> and description \<open>""\<close>
  where they are missing, and \<open>param_required\<close> is the \<open>required\<close> entry of
  \<open>parameters\<close>, the empty list when absent. The wrapped spec with the single
  parameter \<open>a\<close> of type \<open>int\<close> and no \<open>properties\<close> layer yields exactly that
  parameter with an empty description.
\<close>

theorem create_from_schema_json_properties:
  assumes "unwrap_function fs = Inr (PDict f)"
    and "dict_get f ''parameters'' (PDict []) = PDict ps"
    and "dict_get ps ''properties'' (PDict ps) = PDict items"
    and "distinct (map fst items)"
    and "\<forall>(k, d) \<in> set items. \<exists>kv. d = PDict kv"
  shows "\<exists>self'. create_from_schema_json self fs = (self', None)
     \<and> (map_of ps (lit ''properties'') = None \<longrightarrow> items = ps)
     \<and> (\<forall>(k, d) \<in> set items. \<forall>kv. d = PDict kv \<longrightarrow>
            map_of (param_props self') k
              = Some (PDict [(lit ''type'', dict_get kv ''type'' (lit ''string'')),
                             (lit ''description'', dict_get kv ''description'' (lit []))]))
     \<and> param_required self' = dict_get ps ''required'' (PList [])
     \<and> param_props (fst (create_from_schema_json ToolSpec_init
           (PDict [(lit ''type'', lit ''function''),
                   (lit ''function'',
                      PDict [(lit ''name'', lit ''f''),
                             (lit ''parameters'',
                                PDict [(lit ''a'', PDict [(lit ''type'', lit ''int'')])])])])))
         = [(lit ''a'', PDict [(lit ''type'', lit ''int''), (lit ''description'', lit [])])]"
proof -
  let ?self2 = "self\<lparr>name := dict_get f ''name'' (lit []),
                     description := dict_get f ''description'' (lit [])\<rparr>"
  let ?self3 = "fst (schema_params items ?self2)"
  have ok: "snd (schema_params items ?self2) = None"
    using assms(5) by (rule schema_params_ok)
  have run: "create_from_schema_json self fs
               = (?self3\<lparr>param_required := dict_get ps ''required'' (PList [])\<rparr>, None)"
    using assms(1-3) ok by (rule create_from_schema_json_run)
  have entry: "map_of (param_props ?self3) k = Some (with_defaults kv)"
    if "(k, PDict kv) \<in> set items" for k kv
    using assms(4) that ok by (rule schema_params_entry)
  have layer: "map_of ps (lit ''properties'') = None \<longrightarrow> items = ps"
    using assms(3) by (auto simp: dict_get_def)
  have example: "param_props (fst (create_from_schema_json ToolSpec_init
           (PDict [(lit ''type'', lit ''function''),
                   (lit ''function'',
                      PDict [(lit ''name'', lit ''f''),
                             (lit ''parameters'',
                                PDict [(lit ''a'', PDict [(lit ''type'', lit ''int'')])])])])))
         = [(lit ''a'', PDict [(lit ''type'', lit ''int''), (lit ''description'', lit [])])]"
    by (simp add: create_from_schema_json_def unwrap_function_def py_get_def dict_get_def
          py_items_def schema_param_obj_def ToolSpec_init_def)
  show ?thesis
    unfolding run using entry layer example
    by (auto simp: with_defaults_def)
qed

theorem create_from_schema_json_properties_witness:
  "(\<exists>self'.
     create_from_schema_json ToolSpec_init
       (PDict [(lit ''type'', lit ''function''),
               (lit ''function'',
                  PDict [(lit ''name'', lit ''f''),
                         (lit ''parameters'',
                            PDict [(lit ''a'', PDict [(lit ''type'', lit ''int'')]),
                                   (lit ''b'', PDict [])])])]) = (self', None)
     \<and> map_of (param_props self') (lit ''a'')
           = Some (PDict [(lit ''type'', lit ''int''), (lit ''description'', lit [])])
     \<and> map_of (param_props self') (lit ''b'')
           = Some (PDict [(lit ''type'', lit ''string''), (lit ''description'', lit [])])
     \<and> param_required self' = PList [])
   \<and> (\<exists>self'.
     create_from_schema_json ToolSpec_init
       (PDict [(lit ''name'', lit ''g''),
               (lit ''parameters'',
                  PDict [(lit ''properties'', PDict [(lit ''a'', PDict [(lit ''description'', lit ''d'')])]),
                         (lit ''required'', PList [lit ''a''])])]) = (self', None)
     \<and> map_of (param_props self') (lit ''a'')
           = Some (PDict [(lit ''type'', lit ''string''), (lit ''description'', lit ''d'')])
     \<and> param_required self' = PList [lit ''a''])"
proof -
  let ?ps = "[(lit ''a'', PDict [(lit ''type'', lit ''int'')]), (lit ''b'', PDict [])]"
  let ?f = "[(lit ''name'', lit ''f''), (lit ''parameters'', PDict ?ps)]"
  let ?fs = "PDict [(lit ''type'', lit ''function''), (lit ''function'', PDict ?f)]"
  have h1: "unwrap_function ?fs = Inr (PDict ?f)"
    by (simp add: unwrap_function_def)
  have h2: "dict_get ?f ''parameters'' (PDict []) = PDict ?ps"
    by (simp add: dict_get_def)
  have h3: "dict_get ?ps ''properties'' (PDict ?ps) = PDict ?ps"
    by (simp add: dict_get_def)
  have h4: "distinct (map fst ?ps)"
    by simp
  have h5: "\<forall>(k, d) \<in> set ?ps. \<exists>kv. d = PDict kv"
    by simp
  from create_from_schema_json_properties [OF h1 h2 h3 h4 h5, of ToolSpec_init]
  obtain self1 where
    run: "create_from_schema_json ToolSpec_init ?fs = (self1, None)"
    and props: "\<forall>(k, d) \<in> set ?ps. \<forall>kv. d = PDict kv \<longrightarrow>
            map_of (param_props self1) k
              = Some (PDict [(lit ''type'', dict_get kv ''type'' (lit ''string'')),
                             (lit ''description'', dict_get kv ''description'' (lit []))])"
    and req: "param_required self1 = dict_get ?ps ''required'' (PList [])"
    by blast
  from props have "map_of (param_props self1) (lit ''a'')
           = Some (PDict [(lit ''type'', lit ''int''), (lit ''description'', lit [])])"
    and "map_of (param_props self1) (lit ''b'')
           = Some (PDict [(lit ''type'', lit ''string''), (lit ''description'', lit [])])"
    by (simp_all add: dict_get_def)
  moreover from req have "param_required self1 = PList []"
    by (simp add: dict_get_def)
  ultimately have first: "\<exists>self'. create_from_schema_json ToolSpec_init ?fs = (self', None)
     \<and> map_of (param_props self') (lit ''a'')
           = Some (PDict [(lit ''type'', lit ''int''), (lit ''description'', lit [])])
     \<and> map_of (param_props self') (lit ''b'')
           = Some (PDict [(lit ''type'', lit ''string''), (lit ''description'', lit [])])
     \<and> param_required self' = PList []"
    using run by blast
  let ?items = "[(lit ''a'', PDict [(lit ''description'', lit ''d'')])]"
  let ?qs = "[(lit ''properties'', PDict ?items), (lit ''required'', PList [lit ''a''])]"
  let ?g = "[(lit ''name'', lit ''g''), (lit ''parameters'', PDict ?qs)]"
  have g1: "unwrap_function (PDict ?g) = Inr (PDict ?g)"
    by (simp add: unwrap_function_def)
  have g2: "dict_get ?g ''parameters'' (PDict []) = PDict ?qs"
    by (simp add: dict_get_def)
  have g3: "dict_get ?qs ''properties'' (PDict ?qs) = PDict ?items"
    by (simp add: dict_get_def)
  have g4: "distinct (map fst ?items)"
    by simp
  have g5: "\<forall>(k, d) \<in> set ?items. \<exists>kv. d = PDict kv"
    by simp
  from create_from_schema_json_properties [OF g1 g2 g3 g4 g5, of ToolSpec_init]
  obtain self2 where
    run2: "create_from_schema_json ToolSpec_init (PDict ?g) = (self2, None)"
    and props2: "\<forall>(k, d) \<in> set ?items. \<forall>kv. d = PDict kv \<longrightarrow>
            map_of (param_props self2) k
              = Some (PDict [(lit ''type'', dict_get kv ''type'' (lit ''string'')),
                             (lit ''description'', dict_get kv ''description'' (lit []))])"
    and req2: "param_required self2 = dict_get ?qs ''required'' (PList [])"
    by blast
  from props2 have "map_of (param_props self2) (lit ''a'')
           = Some (PDict [(lit ''type'', lit ''string''), (lit ''description'', lit ''d'')])"
    by (simp add: dict_get_def)
  moreover from req2 have "param_required self2 = PList [lit ''a'']"
    by (simp add: dict_get_def)
  ultimately have second: "\<exists>self'. create_from_schema_json ToolSpec_init (PDict ?g) = (self', None)
     \<and> map_of (param_props self') (lit ''a'')
           = Some (PDict [(lit ''type'', lit ''string''), (lit ''description'', lit ''d'')])
     \<and> param_required self' = PList [lit ''a'']"
    using run2 by blast
  from first second show ?thesis by blast
qed

text \<open>
  C8 as stated fails: without the \<open>properties\<close> layer the key \<open>required\<close> is itself
  taken for a parameter, \<open>.get\<close> on its list raises AttributeError, and the required
  list is never copied.
\<close>

theorem create_from_schema_json_properties_counterexample:
  "snd (create_from_schema_json ToolSpec_init
       (PDict [(lit ''name'', lit ''f''),
               (lit ''parameters'',
                  PDict [(lit ''a'', PDict [(lit ''type'', lit ''int'')]),
                         (lit ''required'', PList [lit ''a''])])])) = Some AttributeError
   \<and> param_required (fst (create_from_schema_json ToolSpec_init
       (PDict [(lit ''name'', lit ''f''),
               (lit ''parameters'',
                  PDict [(lit ''a'', PDict [(lit ''type'', lit ''int'')]),
                         (lit ''required'', PList [lit ''a''])])]))) = PList []"
  by (simp add: create_from_schema_json_def unwrap_function_def py_get_def dict_get_def
        py_items_def schema_param_obj_def ToolSpec_init_def)









section \<open>Properties of openapi_to_requests\<close>

lemma py_bind_Inr_iff: "py_bind m f = Inr y \<longleftrightarrow> (\<exists>x. m = Inr x \<and> f x = Inr y)"
  by (cases m) auto

lemma py_items_Inr_iff: "py_items x = Inr kvs \<longleftrightarrow> x = PDict kvs"
  by (cases x) (auto simp: py_items_def)

lemma in_set_update:
  "(a, b) \<in> set (AList.update k v al) \<Longrightarrow> (a, b) = (k, v) \<or> (a, b) \<in> set al"
  by (induction al) (auto split: if_splits)

lemma convert_operation_enum:
  assumes "convert_operation L servers_urls path method pcl sw = Inr (oid, fn)"
  shows "dict_path fn [''parameters'', ''properties'', ''url'', ''enum'']
           = Some (PList (map (\<lambda>url. PStr (py_format L url @ py_format L path)) servers_urls))"
  using assms
  by (auto simp: convert_operation_def py_bind_Inr_iff split: pyval.splits)

lemma path_methods_loop_entries:
  "path_methods_loop L urls path ms pcl fns = Inr fns' \<Longrightarrow> (k, fn) \<in> set fns' \<Longrightarrow>
   (k, fn) \<in> set fns \<or>
   (\<exists>mth sw pcl' oid. (mth, sw) \<in> set ms \<and> mth \<noteq> lit ''parameters''
       \<and> convert_operation L urls path mth pcl' sw = Inr (oid, fn) \<and> k = PStr oid)"
proof (induction L urls path ms pcl fns rule: path_methods_loop.induct)
  case (1 L urls path pcl fns)
  then show ?case by simp
next
  case (2 L urls path mth sw rest pcl fns)
  show ?case
  proof (cases "mth = lit ''parameters''")
    case True
    with 2 show ?thesis by auto
  next
    case False
    with "2.prems" obtain oid f where
      conv: "convert_operation L urls path mth pcl sw = Inr (oid, f)"
      and run: "path_methods_loop L urls path rest pcl (AList.update (PStr oid) f fns) = Inr fns'"
      by (auto split: sum.splits)
    from "2.IH"(2) [OF False conv refl run "2.prems"(2)]
    show ?thesis
    proof
      assume "(k, fn) \<in> set (AList.update (PStr oid) f fns)"
      then have "(k, fn) = (PStr oid, f) \<or> (k, fn) \<in> set fns"
        by (rule in_set_update)
      with conv False show ?thesis by auto
    next
      assume "\<exists>mth sw pcl' oid. (mth, sw) \<in> set rest \<and> mth \<noteq> lit ''parameters''
         \<and> convert_operation L urls path mth pcl' sw = Inr (oid, fn) \<and> k = PStr oid"
      then show ?thesis by auto
    qed
  qed
qed

lemma paths_loop_entries:
  "paths_loop L urls items fns = Inr fns' \<Longrightarrow> (k, fn) \<in> set fns' \<Longrightarrow>
   (k, fn) \<in> set fns \<or>
   (\<exists>path ms mth sw pcl oid. (path, PDict ms) \<in> set items \<and> (mth, sw) \<in> set ms
       \<and> mth \<noteq> lit ''parameters''
       \<and> convert_operation L urls path mth pcl sw = Inr (oid, fn) \<and> k = PStr oid)"
proof (induction L urls items fns rule: paths_loop.induct)
  case (1 L urls fns)
  then show ?case by simp
next
  case (2 L urls path path_methods rest fns)
  from "2.prems" obtain ms fns1 where
    pm: "path_methods = PDict ms"
    and inner: "path_methods_loop L urls path ms (PList []) fns = Inr fns1"
    and outer: "paths_loop L urls rest fns1 = Inr fns'"
    by (auto simp: py_items_def split: sum.splits pyval.splits)
  have items: "py_items path_methods = Inr ms"
    using pm by (simp add: py_items_def)
  from "2.IH" [OF items inner outer "2.prems"(2)]
  show ?case
  proof
    assume "(k, fn) \<in> set fns1"
    from path_methods_loop_entries [OF inner this] show ?thesis
    proof
      assume "(k, fn) \<in> set fns"
      then show ?thesis by simp
    next
      assume "\<exists>mth sw pcl' oid. (mth, sw) \<in> set ms \<and> mth \<noteq> lit ''parameters''
         \<and> convert_operation L urls path mth pcl' sw = Inr (oid, fn) \<and> k = PStr oid"
      then obtain mth sw pcl' oid where
        b: "(mth, sw) \<in> set ms \<and> mth \<noteq> lit ''parameters''
           \<and> convert_operation L urls path mth pcl' sw = Inr (oid, fn) \<and> k = PStr oid"
        by blast
      have "(path, PDict ms) \<in> set ((path, path_methods) # rest)"
        using pm by simp
      with b show ?thesis by blast
    qed
  next
    assume "\<exists>path ms mth sw pcl oid. (path, PDict ms) \<in> set rest \<and> (mth, sw) \<in> set ms
       \<and> mth \<noteq> lit ''parameters''
       \<and> convert_operation L urls path mth pcl sw = Inr (oid, fn) \<and> k = PStr oid"
    then obtain p ms' mth sw pcl oid where
      a: "(p, PDict ms') \<in> set rest"
      and b: "(mth, sw) \<in> set ms' \<and> mth \<noteq> lit ''parameters''
         \<and> convert_operation L urls p mth pcl sw = Inr (oid, fn) \<and> k = PStr oid"
      by blast
    from a have "(p, PDict ms') \<in> set ((path, path_methods) # rest)"
      by simp
    with b show ?thesis by blast
  qed
qed

lemma convert_operation_key:
  assumes "convert_operation L urls path mth pcl sw = Inr (oid, fn)"
  shows "operation_key L sw = Some (PStr oid)"
  using assms
  by (auto simp: convert_operation_def py_bind_Inr_iff operation_key_def normalize_string_arg_def
           split: pyval.splits)

lemma convert_operation_url_enum:
  assumes "convert_operation L urls path mth pcl sw = Inr (oid, fn)"
  shows "url_enum fn = Some (PList (map (\<lambda>url. PStr (py_format L url @ py_format L path)) urls))"
  unfolding url_enum_def using assms by (rule convert_operation_enum)

lemma path_methods_loop_keeps:
  assumes "path_methods_loop L urls path ms pcl fns = Inr fns'"
    and "\<forall>(m, s) \<in> set ms. m \<noteq> lit ''parameters'' \<longrightarrow> operation_key L s \<noteq> Some k"
  shows "map_of fns' k = map_of fns k"
  using assms
proof (induction ms arbitrary: pcl fns)
  case Nil
  then show ?case by simp
next
  case (Cons x rest)
  obtain m s where x: "x = (m, s)" by (cases x)
  from Cons.prems(2) have later:
    "\<forall>(m, s) \<in> set rest. m \<noteq> lit ''parameters'' \<longrightarrow> operation_key L s \<noteq> Some k"
    by simp
  show ?case
  proof (cases "m = lit ''parameters''")
    case True
    with Cons.prems(1) x have "path_methods_loop L urls path rest s fns = Inr fns'"
      by simp
    from Cons.IH [OF this later] show ?thesis .
  next
    case False
    with Cons.prems(1) x obtain oid f where
      conv: "convert_operation L urls path m pcl s = Inr (oid, f)"
      and run: "path_methods_loop L urls path rest pcl (AList.update (PStr oid) f fns) = Inr fns'"
      by (auto split: sum.splits)
    from convert_operation_key [OF conv] Cons.prems(2) x False have "PStr oid \<noteq> k"
      by auto
    with Cons.IH [OF run later] show ?thesis
      by (simp add: update_conv')
  qed
qed

lemma paths_loop_keeps:
  assumes "paths_loop L urls items fns = Inr fns'"
    and "\<forall>(p, pm) \<in> set items. \<forall>ms. pm = PDict ms \<longrightarrow>
           (\<forall>(m, s) \<in> set ms. m \<noteq> lit ''parameters'' \<longrightarrow> operation_key L s \<noteq> Some k)"
  shows "map_of fns' k = map_of fns k"
  using assms
proof (induction items arbitrary: fns)
  case Nil
  then show ?case by simp
next
  case (Cons x rest)
  obtain p pm where x: "x = (p, pm)" by (cases x)
  from Cons.prems(1) x obtain ms fns1 where
    pm: "pm = PDict ms"
    and inner: "path_methods_loop L urls p ms (PList []) fns = Inr fns1"
    and outer: "paths_loop L urls rest fns1 = Inr fns'"
    by (auto simp: py_items_def split: sum.splits pyval.splits)
  from Cons.prems(2) x pm have
    here: "\<forall>(m, s) \<in> set ms. m \<noteq> lit ''parameters'' \<longrightarrow> operation_key L s \<noteq> Some k"
    by simp
  from Cons.prems(2) have later:
    "\<forall>(p, pm) \<in> set rest. \<forall>ms. pm = PDict ms \<longrightarrow>
           (\<forall>(m, s) \<in> set ms. m \<noteq> lit ''parameters'' \<longrightarrow> operation_key L s \<noteq> Some k)"
    by simp
  from Cons.IH [OF outer later] path_methods_loop_keeps [OF inner here]
  show ?case by simp
qed

lemma path_methods_loop_append:
  assumes "path_methods_loop L urls path (xs @ ys) pcl fns = Inr r"
  shows "\<exists>pcl1 fns1. path_methods_loop L urls path ys pcl1 fns1 = Inr r"
  using assms
proof (induction xs arbitrary: pcl fns)
  case Nil
  then show ?case by auto
next
  case (Cons x rest)
  obtain m s where x: "x = (m, s)" by (cases x)
  show ?case
  proof (cases "m = lit ''parameters''")
    case True
    with Cons.prems x have "path_methods_loop L urls path (rest @ ys) s fns = Inr r"
      by simp
    from Cons.IH [OF this] show ?thesis .
  next
    case False
    with Cons.prems x obtain oid f where
      "path_methods_loop L urls path (rest @ ys) pcl (AList.update (PStr oid) f fns) = Inr r"
      by (auto split: sum.splits)
    from Cons.IH [OF this] show ?thesis .
  qed
qed

lemma paths_loop_append:
  assumes "paths_loop L urls (xs @ ys) fns = Inr r"
  shows "\<exists>fns1. paths_loop L urls ys fns1 = Inr r"
  using assms
proof (induction xs arbitrary: fns)
  case Nil
  then show ?case by auto
next
  case (Cons x rest)
  obtain p pm where x: "x = (p, pm)" by (cases x)
  from Cons.prems x obtain fns1 where "paths_loop L urls (rest @ ys) fns1 = Inr r"
    by (auto split: sum.splits)
  from Cons.IH [OF this] show ?case .
qed

lemma path_methods_loop_last:
  assumes "path_methods_loop L urls path (prem @ (mth, sw) # postm) pcl fns = Inr fns'"
    and "mth \<noteq> lit ''parameters''" and "operation_key L sw = Some k"
    and "\<forall>(m, s) \<in> set postm. m \<noteq> lit ''parameters'' \<longrightarrow> operation_key L s \<noteq> Some k"
  shows "\<exists>fn. map_of fns' k = Some fn
           \<and> url_enum fn = Some (PList (map (\<lambda>url. PStr (py_format L url @ py_format L path)) urls))"
proof -
  from path_methods_loop_append [OF assms(1)] obtain pcl1 fns1 where
    "path_methods_loop L urls path ((mth, sw) # postm) pcl1 fns1 = Inr fns'"
    by blast
  with assms(2) obtain oid fn where
    conv: "convert_operation L urls path mth pcl1 sw = Inr (oid, fn)"
    and run: "path_methods_loop L urls path postm pcl1 (AList.update (PStr oid) fn fns1) = Inr fns'"
    by (auto split: sum.splits)
  from convert_operation_key [OF conv] assms(3) have k: "k = PStr oid"
    by simp
  from path_methods_loop_keeps [OF run assms(4)] k have "map_of fns' k = Some fn"
    by (simp add: update_conv')
  with convert_operation_url_enum [OF conv] show ?thesis by blast
qed

lemma paths_loop_last:
  assumes "paths_loop L urls (pre @ (path, PDict methods) # post) fns = Inr fns'"
    and "methods = prem @ (mth, sw) # postm"
    and "mth \<noteq> lit ''parameters''" and "operation_key L sw = Some k"
    and "\<forall>(m, s) \<in> set postm. m \<noteq> lit ''parameters'' \<longrightarrow> operation_key L s \<noteq> Some k"
    and "\<forall>(p, pm) \<in> set post. \<forall>ms. pm = PDict ms \<longrightarrow>
           (\<forall>(m, s) \<in> set ms. m \<noteq> lit ''parameters'' \<longrightarrow> operation_key L s \<noteq> Some k)"
  shows "\<exists>fn. map_of fns' k = Some fn
           \<and> url_enum fn = Some (PList (map (\<lambda>url. PStr (py_format L url @ py_format L path)) urls))"
proof -
  from paths_loop_append [OF assms(1)] obtain fnsA where
    "paths_loop L urls ((path, PDict methods) # post) fnsA = Inr fns'"
    by blast
  then obtain fnsB where
    inner: "path_methods_loop L urls path methods (PList []) fnsA = Inr fnsB"
    and outer: "paths_loop L urls post fnsB = Inr fns'"
    by (auto simp: py_items_def split: sum.splits)
  from path_methods_loop_last [OF inner [unfolded assms(2)] assms(3,4,5)] obtain fn where
    "map_of fnsB k = Some fn"
    and "url_enum fn = Some (PList (map (\<lambda>url. PStr (py_format L url @ py_format L path)) urls))"
    by blast
  with paths_loop_keeps [OF outer assms(6)] show ?thesis by simp
qed

lemma map_err_getitem_url:
  assumes "list_all2 (\<lambda>s url. \<exists>kv. s = PDict kv \<and> map_of kv (lit ''url'') = Some url) servers urls"
  shows "map_err (\<lambda>s. py_getitem s ''url'') servers = Inr urls"
  using assms
  by (induction rule: list_all2_induct) (auto simp: py_getitem_def)

lemma get_servers_urls_declared:
  assumes "map_of doc (lit ''servers'') = Some (PList servers)"
    and "list_all2 (\<lambda>s url. \<exists>kv. s = PDict kv \<and> map_of kv (lit ''url'') = Some url) servers urls"
  shows "get_servers_urls (PDict doc) = Inr urls"
  using assms(1) map_err_getitem_url [OF assms(2)]
  by (simp add: get_servers_urls_def py_getitem_def py_iter_def)

text \<open>
  C6: for a document whose \<open>servers\<close> is a list of objects with a \<open>url\<close>, the \<open>enum\<close>
  of the \<open>url\<close> parameter is the list of the declared server URLs, in the order of
  declaration, each followed by the path of the operation. The function spec stored
  under a key is the one built for the last operation of the document with that key,
  with the path of that operation; and every entry of the returned map belongs to an
  operation with that key, with that operation's path. The replacement field of a
  string is the string, so for server URLs and a path that are strings the entries
  are the concatenations \<open>server_url + path\<close>.
\<close>

theorem url_enum_cross_product:
  assumes "openapi_to_requests L (PDict doc) = Inr functions"
    and "map_of doc (lit ''servers'') = Some (PList servers)"
    and "list_all2 (\<lambda>s url. \<exists>kv. s = PDict kv \<and> map_of kv (lit ''url'') = Some url) servers urls"
    and "map_of doc (lit ''paths'') = Some (PDict paths)"
  shows "(\<forall>pre path methods post prem mth sw postm k.
            paths = pre @ (path, PDict methods) # post
            \<and> methods = prem @ (mth, sw) # postm
            \<and> mth \<noteq> lit ''parameters'' \<and> operation_key L sw = Some k
            \<and> (\<forall>(m, s) \<in> set postm. m \<noteq> lit ''parameters'' \<longrightarrow> operation_key L s \<noteq> Some k)
            \<and> (\<forall>(p, pm) \<in> set post. \<forall>ms. pm = PDict ms \<longrightarrow>
                  (\<forall>(m, s) \<in> set ms. m \<noteq> lit ''parameters'' \<longrightarrow> operation_key L s \<noteq> Some k))
            \<longrightarrow> (\<exists>fn. map_of functions k = Some fn
                   \<and> url_enum fn
                       = Some (PList (map (\<lambda>url. PStr (py_format L url @ py_format L path)) urls))))
     \<and> (\<forall>k fn. (k, fn) \<in> set functions \<longrightarrow>
            (\<exists>path methods mth sw.
                (path, PDict methods) \<in> set paths \<and> (mth, sw) \<in> set methods
                \<and> mth \<noteq> lit ''parameters'' \<and> operation_key L sw = Some k
                \<and> url_enum fn
                    = Some (PList (map (\<lambda>url. PStr (py_format L url @ py_format L path)) urls))))
     \<and> (\<forall>s. py_format L (PStr s) = s)"
proof -
  have urls: "get_servers_urls (PDict doc) = Inr urls"
    using assms(2,3) by (rule get_servers_urls_declared)
  have run: "paths_loop L urls paths [] = Inr functions"
    using assms(1,4) urls
    by (simp add: openapi_to_requests_def py_getitem_def py_items_def)
  have forward: "\<exists>fn. map_of functions k = Some fn
                   \<and> url_enum fn
                       = Some (PList (map (\<lambda>url. PStr (py_format L url @ py_format L path)) urls))"
    if "paths = pre @ (path, PDict methods) # post
            \<and> methods = prem @ (mth, sw) # postm
            \<and> mth \<noteq> lit ''parameters'' \<and> operation_key L sw = Some k
            \<and> (\<forall>(m, s) \<in> set postm. m \<noteq> lit ''parameters'' \<longrightarrow> operation_key L s \<noteq> Some k)
            \<and> (\<forall>(p, pm) \<in> set post. \<forall>ms. pm = PDict ms \<longrightarrow>
                  (\<forall>(m, s) \<in> set ms. m \<noteq> lit ''parameters'' \<longrightarrow> operation_key L s \<noteq> Some k))"
    for pre path methods post prem mth sw postm k
  proof -
    from that run have "paths_loop L urls (pre @ (path, PDict methods) # post) [] = Inr functions"
      by simp
    from paths_loop_last [OF this] that show ?thesis by blast
  qed
  have backward: "\<exists>path methods mth sw.
                (path, PDict methods) \<in> set paths \<and> (mth, sw) \<in> set methods
                \<and> mth \<noteq> lit ''parameters'' \<and> operation_key L sw = Some k
                \<and> url_enum fn
                    = Some (PList (map (\<lambda>url. PStr (py_format L url @ py_format L path)) urls))"
    if "(k, fn) \<in> set functions" for k fn
  proof -
    from paths_loop_entries [OF run that] obtain path ms mth sw pcl oid where
      p: "(path, PDict ms) \<in> set paths" and m: "(mth, sw) \<in> set ms"
      and np: "mth \<noteq> lit ''parameters''"
      and conv: "convert_operation L urls path mth pcl sw = Inr (oid, fn)"
      and k: "k = PStr oid"
      by auto
    from convert_operation_key [OF conv] k have "operation_key L sw = Some k"
      by simp
    with p m np convert_operation_url_enum [OF conv] show ?thesis by blast
  qed
  have fmt: "py_format L (PStr s) = s" for s
    by (simp add: py_format_def)
  from forward backward fmt show ?thesis by blast
qed

theorem url_enum_cross_product_witness:
  "\<exists>functions.
     openapi_to_requests ascii_lib
       (PDict [(lit ''servers'', PList [PDict [(lit ''url'', lit ''https://h1'')],
                                        PDict [(lit ''url'', lit ''https://h2'')]]),
               (lit ''paths'',
                  PDict [(lit ''/a'', PDict [(lit ''get'', PDict [(lit ''operationId'', lit ''x'')])]),
                         (lit ''/b'', PDict [(lit ''get'', PDict [(lit ''operationId'', lit ''y'')])])])])
       = Inr functions
     \<and> (\<exists>fn. map_of functions (lit ''x'') = Some fn
            \<and> url_enum fn = Some (PList [lit ''https://h1/a'', lit ''https://h2/a'']))
     \<and> (\<exists>fn. map_of functions (lit ''y'') = Some fn
            \<and> url_enum fn = Some (PList [lit ''https://h1/b'', lit ''https://h2/b'']))"
proof -
  let ?opx = "PDict [(lit ''operationId'', lit ''x'')]"
  let ?opy = "PDict [(lit ''operationId'', lit ''y'')]"
  let ?servers = "[PDict [(lit ''url'', lit ''https://h1'')], PDict [(lit ''url'', lit ''https://h2'')]]"
  let ?paths = "[(lit ''/a'', PDict [(lit ''get'', ?opx)]), (lit ''/b'', PDict [(lit ''get'', ?opy)])]"
  let ?doc = "[(lit ''servers'', PList ?servers), (lit ''paths'', PDict ?paths)]"
  let ?urls = "[lit ''https://h1'', lit ''https://h2'']"
  have lib: "replace_refs ascii_lib v = v"
    "str_upper ascii_lib (ascii ''get'') = ascii ''GET''"
    "normalize_string (unicode ascii_lib) (ascii ''x'') = ascii ''x''"
    "normalize_string (unicode ascii_lib) (ascii ''y'') = ascii ''y''" for v
    by (simp_all add: normalize_string_def re_sub_nonword_def re_match_start_def re_w_def re_d_def
          ascii_letter_def ascii_digit_def ascii_def ascii_lib_def)
  have cat: "ascii s @ ascii t = ascii (s @ t)" for s t
    by (simp add: ascii_def)
  have "\<exists>functions. openapi_to_requests ascii_lib (PDict ?doc) = Inr functions"
    by (simp add: openapi_to_requests_def get_servers_urls_def py_getitem_def py_iter_def
          py_items_def convert_operation_def normalize_string_arg_def dict_get_def lib
          py_upper_def param_dict_def params_iter_def request_data_def)
  then obtain fns where run: "openapi_to_requests ascii_lib (PDict ?doc) = Inr fns"
    by blast
  have h2: "map_of ?doc (lit ''servers'') = Some (PList ?servers)"
    by simp
  have h3: "list_all2 (\<lambda>s url. \<exists>kv. s = PDict kv \<and> map_of kv (lit ''url'') = Some url)
              ?servers ?urls"
    by simp
  have h4: "map_of ?doc (lit ''paths'') = Some (PDict ?paths)"
    by simp
  have keys: "operation_key ascii_lib ?opx = Some (lit ''x'')"
    "operation_key ascii_lib ?opy = Some (lit ''y'')"
    by (simp_all add: operation_key_def dict_get_def lib)
  note inst = url_enum_cross_product [OF run h2 h3 h4, THEN conjunct1, rule_format]
  have "\<exists>fn. map_of fns (lit ''x'') = Some fn
          \<and> url_enum fn = Some (PList (map (\<lambda>url. PStr (py_format ascii_lib url
                                                          @ py_format ascii_lib (lit ''/a''))) ?urls))"
    by (rule inst [of "[]" "lit ''/a''" "[(lit ''get'', ?opx)]" "[(lit ''/b'', PDict [(lit ''get'', ?opy)])]"
                       "[]" "lit ''get''" ?opx "[]" "lit ''x''"])
       (simp add: keys)
  then have x: "\<exists>fn. map_of fns (lit ''x'') = Some fn
          \<and> url_enum fn = Some (PList [lit ''https://h1/a'', lit ''https://h2/a''])"
    by (simp add: py_format_def cat)
  have "\<exists>fn. map_of fns (lit ''y'') = Some fn
          \<and> url_enum fn = Some (PList (map (\<lambda>url. PStr (py_format ascii_lib url
                                                          @ py_format ascii_lib (lit ''/b''))) ?urls))"
    by (rule inst [of "[(lit ''/a'', PDict [(lit ''get'', ?opx)])]" "lit ''/b''" "[(lit ''get'', ?opy)]" "[]"
                       "[]" "lit ''get''" ?opy "[]" "lit ''y''"])
       (simp add: keys)
  then have y: "\<exists>fn. map_of fns (lit ''y'') = Some fn
          \<and> url_enum fn = Some (PList [lit ''https://h1/b'', lit ''https://h2/b''])"
    by (simp add: py_format_def cat)
  from run x y show ?thesis by blast
qed

text \<open>The end-to-end example of the specification.\<close>

lemma openapi_to_requests_example:
  "openapi_to_requests ascii_lib
     (PDict [(lit ''servers'', PList [PDict [(lit ''url'', lit ''https://api.example.com'')]]),
             (lit ''paths'',
                PDict [(lit ''/items/{id}'',
                   PDict [(lit ''get'',
                      PDict [(lit ''operationId'', lit ''get item''),
                             (lit ''parameters'',
                                PList [PDict [(lit ''name'', lit ''X-Key''),
                                              (lit ''in'', lit ''header''),
                                              (lit ''type'', lit ''string'')]])])])])])
   = Inr [(lit ''get_item'',
           PDict
            [(lit ''name'', lit ''requests.get''),
             (lit ''description'', lit ''Sends a GET request to the specified URL.''),
             (lit ''parameters'',
              PDict
               [(lit ''type'', lit ''dict''),
                (lit ''properties'',
                 PDict
                  [(lit ''url'',
                    PDict
                     [(lit ''type'', lit ''string''),
                      (lit ''description'', lit ''. ''),
                      (lit ''enum'', PList [lit ''https://api.example.com/items/{id}'']),
                      (lit ''required'', PBool True)]),
                   (lit ''headers'', PDict [(lit ''X-Key'', PDict [(lit ''type'', lit ''string'')])]),
                   (lit ''timeout'',
                    PDict
                     [(lit ''type'', PList [lit ''number'', lit ''tuple'']),
                      (lit ''description'',
                       lit ''How many seconds to wait for the server to send data before giving up.''),
                      (lit ''required'', PBool False)]),
                   (lit ''params'', PDict []), (lit ''data'', PDict [])])])])]"
proof -
  have norm: "normalize_string (unicode ascii_lib) (ascii ''get item'') = ascii ''get_item''"
    by (simp add: normalize_string_def re_sub_nonword_def re_match_start_def re_w_def re_d_def
          ascii_letter_def ascii_digit_def ascii_def ascii_lib_def)
  have upper: "str_upper ascii_lib (ascii ''get'') = ascii ''GET''"
    by (simp add: ascii_def ascii_lib_def)
  have refs: "replace_refs ascii_lib v = v" for v
    by (simp add: ascii_lib_def)
  have cat: "ascii s @ ascii t = ascii (s @ t)" for s t
    by (simp add: ascii_def)
  show ?thesis
    by (simp add: openapi_to_requests_def get_servers_urls_def py_getitem_def py_iter_def
          py_items_def convert_operation_def normalize_string_arg_def dict_get_def norm
          py_upper_def upper param_dict_def params_iter_def param_value_def hashable_def
          dict_merge_def request_data_def py_format_def refs cat)
qed

lemma path_methods_loop_raises:
  assumes "(method, sw) \<in> set ms" and "method \<noteq> lit ''parameters''"
    and "\<forall>pcl. \<exists>e. convert_operation L urls path method pcl sw = Inl e"
  shows "\<exists>e. path_methods_loop L urls path ms pcl0 fns = Inl e"
  using assms(1)
proof (induction ms arbitrary: pcl0 fns)
  case Nil
  then show ?case by simp
next
  case (Cons x rest)
  obtain m s where x: "x = (m, s)" by (cases x)
  show ?case
  proof (cases "(m, s) = (method, sw)")
    case True
    from assms(3) obtain e where "convert_operation L urls path method pcl0 sw = Inl e"
      by blast
    with True x assms(2) show ?thesis by simp
  next
    case False
    with Cons.prems x have rest: "(method, sw) \<in> set rest" by auto
    show ?thesis
    proof (cases "m = lit ''parameters''")
      case True
      with Cons.IH [OF rest] x show ?thesis by simp
    next
      case np: False
      show ?thesis
      proof (cases "convert_operation L urls path m pcl0 s")
        case (Inl e)
        with np x show ?thesis by simp
      next
        case (Inr r)
        obtain oid f where r: "r = (oid, f)" by (cases r)
        from Cons.IH [OF rest] np Inr r x show ?thesis
          by simp
      qed
    qed
  qed
qed

lemma paths_loop_raises:
  assumes "(path, PDict ms) \<in> set items"
    and "\<forall>fns. \<exists>e. path_methods_loop L urls path ms (PList []) fns = Inl e"
  shows "\<exists>e. paths_loop L urls items fns = Inl e"
  using assms(1)
proof (induction items arbitrary: fns)
  case Nil
  then show ?case by simp
next
  case (Cons x rest)
  obtain p pm where x: "x = (p, pm)" by (cases x)
  show ?case
  proof (cases "(p, pm) = (path, PDict ms)")
    case True
    from assms(2) obtain e where "path_methods_loop L urls path ms (PList []) fns = Inl e"
      by blast
    with True x show ?thesis by (simp add: py_items_def)
  next
    case False
    with Cons.prems x have rest: "(path, PDict ms) \<in> set rest" by auto
    show ?thesis
    proof (cases "py_items pm")
      case (Inl e)
      with x show ?thesis by simp
    next
      case (Inr methods)
      show ?thesis
      proof (cases "path_methods_loop L urls p methods (PList []) fns")
        case (Inl e)
        with Inr x show ?thesis by simp
      next
        case inner: (Inr fns1)
        from Cons.IH [OF rest] Inr inner x show ?thesis by simp
      qed
    qed
  qed
qed

lemma openapi_to_requests_raises:
  assumes "py_getitem openapi_spec ''paths'' = Inr (PDict paths)"
    and "(path, PDict methods) \<in> set paths"
    and "(method, sw) \<in> set methods" and "method \<noteq> lit ''parameters''"
    and "\<forall>urls pcl. \<exists>e. convert_operation L urls path method pcl sw = Inl e"
  shows "\<exists>e. openapi_to_requests L openapi_spec = Inl e"
proof (cases "get_servers_urls openapi_spec")
  case (Inl e)
  then show ?thesis by (simp add: openapi_to_requests_def)
next
  case (Inr urls)
  have "\<exists>e. path_methods_loop L urls path methods (PList []) fns = Inl e" for fns
    using assms(3,4,5) by (intro path_methods_loop_raises) auto
  then have "\<exists>e. paths_loop L urls paths [] = Inl e"
    using assms(2) by (intro paths_loop_raises) auto
  with Inr assms(1) show ?thesis
    by (simp add: openapi_to_requests_def py_items_def)
qed

lemma convert_operation_no_operation_id:
  assumes "replace_refs L sw = PDict spec" and "map_of spec (lit ''operationId'') = None"
  shows "convert_operation L urls path method pcl sw = Inl TypeError"
  using assms
  by (simp add: convert_operation_def dict_get_def normalize_string_arg_def)

text \<open>
  C3, as the code behaves: for an operation without \<open>operationId\<close>,
  \<open>spec.get("operationId")\<close> is \<open>None\<close> and \<open>normalize_string(None)\<close> raises TypeError;
  nothing catches it, so the whole conversion raises and returns no map.
\<close>

theorem missing_operation_id_aborts_conversion:
  assumes "py_getitem openapi_spec ''paths'' = Inr (PDict paths)"
    and "(path, PDict methods) \<in> set paths"
    and "(method, spec_with_ref) \<in> set methods" and "method \<noteq> lit ''parameters''"
    and "replace_refs L spec_with_ref = PDict spec"
    and "map_of spec (lit ''operationId'') = None"
  shows "convert_operation L servers_urls path method params_common_list spec_with_ref = Inl TypeError
     \<and> (\<exists>e. openapi_to_requests L openapi_spec = Inl e)"
proof -
  have conv: "convert_operation L urls path method pcl spec_with_ref = Inl TypeError" for urls pcl
    using assms(5,6) by (rule convert_operation_no_operation_id)
  then have "\<forall>urls pcl. \<exists>e. convert_operation L urls path method pcl spec_with_ref = Inl e"
    by blast
  from openapi_to_requests_raises [OF assms(1-4) this] conv show ?thesis
    by blast
qed

lemma eval_lib:
  "replace_refs ascii_lib v = v"
  "str_upper ascii_lib (ascii ''get'') = ascii ''GET''"
  "str_upper ascii_lib (ascii ''post'') = ascii ''POST''"
  "normalize_string (unicode ascii_lib) (ascii ''ok'') = ascii ''ok''"
  "normalize_string (unicode ascii_lib) (ascii ''create'') = ascii ''create''"
  by (simp_all add: normalize_string_def re_sub_nonword_def re_match_start_def re_w_def re_d_def
        ascii_letter_def ascii_digit_def ascii_def ascii_lib_def)

text \<open>
  C3 as stated fails: with an operation without \<open>operationId\<close> under \<open>/a\<close> and a
  complete operation under \<open>/b\<close>, the conversion raises TypeError; the operation under
  \<open>/b\<close> is not converted and no error is reported per operation.
\<close>

theorem missing_operation_id_counterexample:
  "openapi_to_requests ascii_lib
     (PDict [(lit ''servers'', PList [PDict [(lit ''url'', lit ''https://api.example.com'')]]),
             (lit ''paths'',
                PDict [(lit ''/a'', PDict [(lit ''get'', PDict [(lit ''summary'', lit ''no id'')])]),
                       (lit ''/b'', PDict [(lit ''get'', PDict [(lit ''operationId'', lit ''ok'')])])])])
   = Inl TypeError"
  by (simp add: openapi_to_requests_def get_servers_urls_def py_getitem_def py_iter_def
        py_items_def convert_operation_def normalize_string_arg_def dict_get_def eval_lib)

theorem missing_operation_id_aborts_conversion_witness:
  "convert_operation ascii_lib [lit ''https://api.example.com''] (lit ''/a'') (lit ''get'') (PList [])
       (PDict [(lit ''summary'', lit ''no id'')]) = Inl TypeError
   \<and> (\<exists>e. openapi_to_requests ascii_lib
     (PDict [(lit ''servers'', PList [PDict [(lit ''url'', lit ''https://api.example.com'')]]),
             (lit ''paths'',
                PDict [(lit ''/a'', PDict [(lit ''get'', PDict [(lit ''summary'', lit ''no id'')])]),
                       (lit ''/b'', PDict [(lit ''get'', PDict [(lit ''operationId'', lit ''ok'')])])])])
       = Inl e)"
proof -
  let ?op = "PDict [(lit ''summary'', lit ''no id'')]"
  let ?paths = "[(lit ''/a'', PDict [(lit ''get'', ?op)]),
                 (lit ''/b'', PDict [(lit ''get'', PDict [(lit ''operationId'', lit ''ok'')])])]"
  let ?doc = "PDict [(lit ''servers'', PList [PDict [(lit ''url'', lit ''https://api.example.com'')]]),
                     (lit ''paths'', PDict ?paths)]"
  have h1: "py_getitem ?doc ''paths'' = Inr (PDict ?paths)"
    by (simp add: py_getitem_def)
  have h2: "(lit ''/a'', PDict [(lit ''get'', ?op)]) \<in> set ?paths"
    by simp
  have h3: "(lit ''get'', ?op) \<in> set [(lit ''get'', ?op)]"
    by simp
  have h4: "lit ''get'' \<noteq> lit ''parameters''"
    by simp
  have h5: "replace_refs ascii_lib ?op = PDict [(lit ''summary'', lit ''no id'')]"
    by (simp add: ascii_lib_def)
  have h6: "map_of [(lit ''summary'', lit ''no id'')] (lit ''operationId'') = None"
    by simp
  from missing_operation_id_aborts_conversion [OF h1 h2 h3 h4 h5 h6]
  show ?thesis by blast
qed

lemma py_bind_raises: "(\<And>x. \<exists>e. f x = Inl e) \<Longrightarrow> \<exists>e. py_bind m f = Inl e"
  by (cases m) auto

lemma request_data_empty_content:
  assumes "map_of spec (lit ''requestBody'') = Some request_body"
    and "py_get request_body ''content'' PNone = Inr (PDict [])"
  shows "request_data spec = Inl StopIteration"
  using assms by (simp add: request_data_def)

lemma convert_operation_empty_content_raises:
  assumes "replace_refs L sw = PDict spec" and "request_data spec = Inl err"
  shows "\<exists>e. convert_operation L urls path method pcl sw = Inl e"
proof -
  have data: "\<exists>e. py_bind (request_data spec) f = Inl e"
    for f :: "pyval \<Rightarrow> py_error + pystr \<times> pyval"
    by (simp add: assms(2))
  show ?thesis
    unfolding convert_operation_def assms(1) pyval.case
    by (rule py_bind_raises, rule py_bind_raises, rule py_bind_raises, rule py_bind_raises)
       (rule data)
qed

lemma convert_operation_empty_content:
  assumes "replace_refs L sw = PDict spec" and "request_data spec = Inl err"
    and "dict_get spec ''operationId'' PNone = PStr oid" and "method = PStr m"
    and "param_dict ''header'' pcl spec = Inr h" and "param_dict ''query'' pcl spec = Inr q"
  shows "convert_operation L urls path method pcl sw = Inl err"
  using assms
  by (simp add: convert_operation_def normalize_string_arg_def py_upper_def)

text \<open>
  C5, as the code behaves: for an operation whose request body has an empty
  \<open>content\<close>, \<open>next(iter(content))\<close> raises StopIteration once the operation id, the
  method and the two parameter dicts have been evaluated; nothing catches it, so the
  whole conversion raises and returns no map.
\<close>

theorem empty_request_body_content_aborts_conversion:
  assumes "py_getitem openapi_spec ''paths'' = Inr (PDict paths)"
    and "(path, PDict methods) \<in> set paths"
    and "(method, spec_with_ref) \<in> set methods" and "method \<noteq> lit ''parameters''"
    and "replace_refs L spec_with_ref = PDict spec"
    and "map_of spec (lit ''requestBody'') = Some request_body"
    and "py_get request_body ''content'' PNone = Inr (PDict [])"
  shows "(\<exists>e. openapi_to_requests L openapi_spec = Inl e)
     \<and> (\<forall>oid m headers query.
           dict_get spec ''operationId'' PNone = PStr oid \<and> method = PStr m
           \<and> param_dict ''header'' params_common_list spec = Inr headers
           \<and> param_dict ''query'' params_common_list spec = Inr query \<longrightarrow>
           convert_operation L servers_urls path method params_common_list spec_with_ref
             = Inl StopIteration)"
proof -
  have data: "request_data spec = Inl StopIteration"
    using assms(6,7) by (rule request_data_empty_content)
  have "\<forall>urls pcl. \<exists>e. convert_operation L urls path method pcl spec_with_ref = Inl e"
    using convert_operation_empty_content_raises [OF assms(5) data] by blast
  from openapi_to_requests_raises [OF assms(1-4) this]
    convert_operation_empty_content [OF assms(5) data]
  show ?thesis by blast
qed

text \<open>
  C5 as stated fails: with an empty \<open>content\<close> in the operation under \<open>/a\<close> and a
  complete operation under \<open>/b\<close>, the conversion raises StopIteration, not a named
  error, and the operation under \<open>/b\<close> is not converted.
\<close>

theorem empty_request_body_content_counterexample:
  "openapi_to_requests ascii_lib
     (PDict [(lit ''servers'', PList [PDict [(lit ''url'', lit ''https://api.example.com'')]]),
             (lit ''paths'',
                PDict [(lit ''/a'',
                         PDict [(lit ''post'',
                            PDict [(lit ''operationId'', lit ''create''),
                                   (lit ''requestBody'', PDict [(lit ''content'', PDict [])])])]),
                       (lit ''/b'', PDict [(lit ''get'', PDict [(lit ''operationId'', lit ''ok'')])])])])
   = Inl StopIteration"
  by (simp add: openapi_to_requests_def get_servers_urls_def py_getitem_def py_iter_def
        py_items_def convert_operation_def normalize_string_arg_def dict_get_def eval_lib
        py_upper_def param_dict_def params_iter_def request_data_def py_get_def)

theorem empty_request_body_content_aborts_conversion_witness:
  "(\<exists>e. openapi_to_requests ascii_lib
     (PDict [(lit ''servers'', PList [PDict [(lit ''url'', lit ''https://api.example.com'')]]),
             (lit ''paths'',
                PDict [(lit ''/a'',
                         PDict [(lit ''post'',
                            PDict [(lit ''operationId'', lit ''create''),
                                   (lit ''requestBody'', PDict [(lit ''content'', PDict [])])])]),
                       (lit ''/b'', PDict [(lit ''get'', PDict [(lit ''operationId'', lit ''ok'')])])])])
       = Inl e)
   \<and> convert_operation ascii_lib [lit ''https://api.example.com''] (lit ''/a'') (lit ''post'') (PList [])
       (PDict [(lit ''operationId'', lit ''create''),
               (lit ''requestBody'', PDict [(lit ''content'', PDict [])])]) = Inl StopIteration"
proof -
  let ?spec = "[(lit ''operationId'', lit ''create''),
                (lit ''requestBody'', PDict [(lit ''content'', PDict [])])]"
  let ?paths = "[(lit ''/a'', PDict [(lit ''post'', PDict ?spec)]),
                 (lit ''/b'', PDict [(lit ''get'', PDict [(lit ''operationId'', lit ''ok'')])])]"
  let ?doc = "PDict [(lit ''servers'', PList [PDict [(lit ''url'', lit ''https://api.example.com'')]]),
                     (lit ''paths'', PDict ?paths)]"
  have h1: "py_getitem ?doc ''paths'' = Inr (PDict ?paths)"
    by (simp add: py_getitem_def)
  have h2: "(lit ''/a'', PDict [(lit ''post'', PDict ?spec)]) \<in> set ?paths"
    by simp
  have h3: "(lit ''post'', PDict ?spec) \<in> set [(lit ''post'', PDict ?spec)]"
    by simp
  have h4: "lit ''post'' \<noteq> lit ''parameters''"
    by simp
  have h5: "replace_refs ascii_lib (PDict ?spec) = PDict ?spec"
    by (simp add: ascii_lib_def)
  have h6: "map_of ?spec (lit ''requestBody'') = Some (PDict [(lit ''content'', PDict [])])"
    by simp
  have h7: "py_get (PDict [(lit ''content'', PDict [])]) ''content'' PNone = Inr (PDict [])"
    by (simp add: py_get_def dict_get_def)
  have g: "dict_get ?spec ''operationId'' PNone = PStr (ascii ''create'') \<and> lit ''post'' = PStr (ascii ''post'')
           \<and> param_dict ''header'' (PList []) ?spec = Inr (PDict [])
           \<and> param_dict ''query'' (PList []) ?spec = Inr (PDict [])"
    by (simp add: dict_get_def param_dict_def params_iter_def)
  from empty_request_body_content_aborts_conversion [OF h1 h2 h3 h4 h5 h6 h7,
      of "PList []" "[lit ''https://api.example.com'']"] g
  show ?thesis by blast
qed

section \<open>Properties of the method finder\<close>

lemma is_function_named_simps:
  "is_function_named mname (FunctionDef nm a doc body) = (nm = mname)"
  "is_function_named mname (ClassDef nm body) = False"
  "is_function_named mname (OtherNode cs) = False"
  by (simp_all add: is_function_named_def)

lemma direct_loop_Some:
  "direct_loop full modname mname n nodes methods = Inr (Some ms) \<Longrightarrow>
   n \<le> int (length ms) \<and>
   length ms \<le> length methods + length (filter (is_function_named mname) nodes)"
proof (induction nodes arbitrary: methods)
  case Nil
  then show ?case by simp
next
  case (Cons nd nodes)
  show ?case
  proof (cases nd)
    case (ClassDef nm body)
    with Cons show ?thesis by (simp add: is_function_named_simps)
  next
    case (OtherNode cs)
    with Cons show ?thesis by (simp add: is_function_named_simps)
  next
    case (FunctionDef nm a doc body)
    show ?thesis
    proof (cases "nm = mname")
      case False
      with Cons FunctionDef show ?thesis by (simp add: is_function_named_simps)
    next
      case True
      with Cons.prems FunctionDef obtain ps where
        ps: "parse_function_arguments a = Inr ps"
        and rest: "(let methods1 = methods @
                    [\<lparr>method_name = full, func_def = nd, package_name = modname,
                      class_name = None, doc_string = doc, parameters = Some ps\<rparr>]
              in if int (length methods1) \<ge> n then Inr (Some methods1)
                 else direct_loop full modname mname n nodes methods1) = Inr (Some ms)"
        by (auto simp: py_bind_Inr_iff)
      let ?m1 = "methods @ [\<lparr>method_name = full, func_def = nd, package_name = modname,
                      class_name = None, doc_string = doc, parameters = Some ps\<rparr>]"
      show ?thesis
      proof (cases "int (length ?m1) \<ge> n")
        case ge: True
        with rest have "ms = ?m1" by (simp add: Let_def)
        with ge True FunctionDef show ?thesis by (simp add: is_function_named_simps)
      next
        case lt: False
        with rest have "direct_loop full modname mname n nodes ?m1 = Inr (Some ms)"
          by (simp add: Let_def)
        from Cons.IH [OF this] True FunctionDef show ?thesis
          by (simp add: is_function_named_simps)
      qed
    qed
  qed
qed

lemma direct_loop_None:
  "int (length methods + length (filter (is_function_named mname) nodes)) < n \<Longrightarrow>
   (\<forall>nm a doc body. FunctionDef nm a doc body \<in> set (filter (is_function_named mname) nodes) \<longrightarrow>
       (\<exists>ps. parse_function_arguments a = Inr ps)) \<Longrightarrow>
   direct_loop full modname mname n nodes methods = Inr None"
proof (induction nodes arbitrary: methods)
  case Nil
  then show ?case by simp
next
  case (Cons nd nodes)
  show ?case
  proof (cases nd)
    case (ClassDef nm body)
    with Cons show ?thesis by (simp add: is_function_named_simps)
  next
    case (OtherNode cs)
    with Cons show ?thesis by (simp add: is_function_named_simps)
  next
    case (FunctionDef nm a doc body)
    show ?thesis
    proof (cases "nm = mname")
      case False
      with Cons FunctionDef show ?thesis by (simp add: is_function_named_simps)
    next
      case True
      have "FunctionDef nm a doc body \<in> set (filter (is_function_named mname) (nd # nodes))"
        using True FunctionDef by (simp add: is_function_named_simps)
      with Cons.prems(2) obtain ps where ps: "parse_function_arguments a = Inr ps"
        by blast
      let ?m1 = "methods @ [\<lparr>method_name = full, func_def = nd, package_name = modname,
                      class_name = None, doc_string = doc, parameters = Some ps\<rparr>]"
      from Cons.prems(1) True FunctionDef
      have lt: "int (length ?m1 + length (filter (is_function_named mname) nodes)) < n"
        by (simp add: is_function_named_simps)
      then have small: "\<not> int (length ?m1) \<ge> n" by simp
      have sub: "set (filter (is_function_named mname) nodes)
                   \<subseteq> set (filter (is_function_named mname) (nd # nodes))"
        by auto
      from Cons.prems(2) sub have
        "\<forall>nm a doc body. FunctionDef nm a doc body \<in> set (filter (is_function_named mname) nodes) \<longrightarrow>
           (\<exists>ps. parse_function_arguments a = Inr ps)"
        by blast
      from Cons.IH [OF lt this] small True FunctionDef ps show ?thesis
        by (simp add: Let_def)
    qed
  qed
qed

text \<open>
  C9, as the code behaves: \<open>find_method_direct\<close> returns a list only when the module
  has at least \<open>expected_num\<close> function definitions of the name, and the list then has
  at least \<open>expected_num\<close> entries; with fewer definitions than \<open>expected_num\<close>, none
  included, it never returns a list and, when \<open>parse_function_arguments\<close> succeeds on
  every such definition, returns \<open>None\<close>: the matches collected so far are dropped.
\<close>

theorem find_method_direct_needs_expected_num:
  assumes "rsplit_dot method_name_full = Inr (module_name0, mname)"
    and "import_source env (if module_name0 = ascii ''requests'' then ascii ''requests.api''
                            else module_name0) = Inr parsed_content"
  shows "(\<forall>ms. find_method_direct env method_name_full expected_num = Inr (Some ms) \<longrightarrow>
            expected_num \<le> int (length ms)
            \<and> length ms \<le> length (function_defs_named mname parsed_content))
     \<and> (int (length (function_defs_named mname parsed_content)) < expected_num \<longrightarrow>
            (\<forall>ms. find_method_direct env method_name_full expected_num \<noteq> Inr (Some ms))
            \<and> ((\<forall>nm a doc body.
                   FunctionDef nm a doc body \<in> set (function_defs_named mname parsed_content) \<longrightarrow>
                   (\<exists>ps. parse_function_arguments a = Inr ps)) \<longrightarrow>
                find_method_direct env method_name_full expected_num = Inr None))"
proof -
  let ?modname = "if module_name0 = ascii ''requests'' then ascii ''requests.api'' else module_name0"
  have run: "find_method_direct env method_name_full expected_num
               = direct_loop method_name_full ?modname mname expected_num (ast_walk parsed_content) []"
    using assms by (simp add: find_method_direct_def Let_def)
  have some: "expected_num \<le> int (length ms)
              \<and> length ms \<le> length (function_defs_named mname parsed_content)"
    if "find_method_direct env method_name_full expected_num = Inr (Some ms)" for ms
    using direct_loop_Some [of method_name_full ?modname mname expected_num
        "ast_walk parsed_content" "[]" ms] that
    unfolding run function_defs_named_def by simp
  have none: "find_method_direct env method_name_full expected_num = Inr None"
    if "int (length (function_defs_named mname parsed_content)) < expected_num"
      and "\<forall>nm a doc body.
             FunctionDef nm a doc body \<in> set (function_defs_named mname parsed_content) \<longrightarrow>
             (\<exists>ps. parse_function_arguments a = Inr ps)"
    using direct_loop_None [of "[]" mname "ast_walk parsed_content" expected_num
        method_name_full ?modname] that
    unfolding run function_defs_named_def by simp
  have never: "find_method_direct env method_name_full expected_num \<noteq> Inr (Some ms)"
    if "int (length (function_defs_named mname parsed_content)) < expected_num" for ms
  proof
    assume "find_method_direct env method_name_full expected_num = Inr (Some ms)"
    from some [OF this] that show False by linarith
  qed
  from some none never show ?thesis by blast
qed

lemma parse_no_arguments: "parse_function_arguments no_arguments = Inr []"
  by (simp add: parse_function_arguments_def no_arguments_def variadic_arg_def)

theorem find_method_direct_needs_expected_num_witness:
  "find_method_direct
     (one_package
        [(''mod'',
          Inr (OtherNode
                 [FunctionDef (ascii ''f'')
                    \<lparr>args = [\<lparr>arg = ascii ''x'', annotation = None\<rparr>],
                       defaults = [\<lparr>literal_eval = Inr (Some ()), dump = ascii ''Constant()''\<rparr>],
                       kwonlyargs = [], kw_defaults = [], vararg = None, kwarg = None\<rparr>
                    None [],
                  ClassDef (ascii ''A'') [def_of ''f'']]))])
     (ascii ''mod.f'') 3 = Inr None
   \<and> length (function_defs_named (ascii ''f'')
         (OtherNode
                 [FunctionDef (ascii ''f'')
                    \<lparr>args = [\<lparr>arg = ascii ''x'', annotation = None\<rparr>],
                       defaults = [\<lparr>literal_eval = Inr (Some ()), dump = ascii ''Constant()''\<rparr>],
                       kwonlyargs = [], kw_defaults = [], vararg = None, kwarg = None\<rparr>
                    None [],
                  ClassDef (ascii ''A'') [def_of ''f'']])) = 2"
proof -
  let ?a = "\<lparr>args = [\<lparr>arg = ascii ''x'', annotation = None\<rparr>],
             defaults = [\<lparr>literal_eval = Inr (Some ()), dump = ascii ''Constant()''\<rparr>],
             kwonlyargs = [], kw_defaults = [], vararg = None, kwarg = None\<rparr> :: unit arguments"
  let ?tree = "OtherNode [FunctionDef (ascii ''f'') ?a None [], ClassDef (ascii ''A'') [def_of ''f'']]"
  let ?env = "one_package [(''mod'', Inr ?tree)]"
  have h1: "rsplit_dot (ascii ''mod.f'') = Inr (ascii ''mod'', ascii ''f'')"
    by (simp add: rsplit_dot_def ascii_simps)
  have h2: "import_source ?env (if ascii ''mod'' = ascii ''requests'' then ascii ''requests.api''
                                else ascii ''mod'') = Inr ?tree"
    by (simp add: one_package_def)
  have found: "function_defs_named (ascii ''f'') ?tree
                 = [FunctionDef (ascii ''f'') ?a None [], FunctionDef (ascii ''f'') no_arguments None []]"
    by (simp add: function_defs_named_def ast_walk_def def_of_def is_function_named_simps)
  have few: "int (length (function_defs_named (ascii ''f'') ?tree)) < 3"
    by (simp add: found)
  have parsed: "\<exists>ps. parse_function_arguments ?a = Inr ps"
    by (simp add: parse_function_arguments_def variadic_arg_def)
  have ok: "\<forall>nm a doc body.
              FunctionDef nm a doc body \<in> set (function_defs_named (ascii ''f'') ?tree) \<longrightarrow>
              (\<exists>ps. parse_function_arguments a = Inr ps)"
    unfolding found using parsed by (auto simp: parse_no_arguments)
  from find_method_direct_needs_expected_num [OF h1 h2, of 3] few ok
  have "find_method_direct ?env (ascii ''mod.f'') 3 = Inr None"
    by blast
  with found show ?thesis by simp
qed

text \<open>
  C9 as stated fails: with a single definition of \<open>f\<close> whose default is not a literal
  and \<open>expected_num = 2\<close>, there are fewer matches than expected, yet the call does not
  return \<open>None\<close>: \<open>parse_function_arguments\<close> raises ValueError.
\<close>

theorem find_method_direct_needs_expected_num_counterexample:
  "find_method_direct
     (one_package
        [(''mod'',
          Inr (OtherNode
                 [FunctionDef (ascii ''f'')
                    \<lparr>args = [\<lparr>arg = ascii ''x'', annotation = None\<rparr>],
                       defaults = [\<lparr>literal_eval = Inl ValueError, dump = ascii ''Call()''\<rparr>],
                       kwonlyargs = [], kw_defaults = [], vararg = None, kwarg = None\<rparr>
                    None []]))])
     (ascii ''mod.f'') 2 = Inl ValueError"
  by (simp add: find_method_direct_def rsplit_dot_def one_package_def ast_walk_def
        parse_function_arguments_def ascii_simps)

text \<open>
  C1 fails on the code: \<open>_find_methods_in_file\<close> returns \<open>None\<close> for a file that does
  not parse, and \<open>methods += None\<close> in \<open>_find_methods_in_package\<close> raises TypeError.
  With \<open>bad.py\<close> before \<open>good.py\<close>, the scan raises and the method \<open>m\<close> of
  \<open>good.py\<close> is not returned.
\<close>

theorem parse_failure_aborts_scan:
  "find_method_in_packages
     (one_package [(''bad.py'', Inl SyntaxError),
                   (''good.py'', Inr (OtherNode [ClassDef (ascii ''A'') [def_of ''m'']]))])
     [ascii ''pkg''] (ascii ''m'') None (- 1) = Inl TypeError"
  by (simp add: find_method_in_packages_def find_methods_in_package_def find_methods_in_file_def
        one_package_def str_endswith_def os_path_join_def ascii_simps)

text \<open>
  C2 fails on the code: every file is scanned with the whole \<open>expected_num\<close>, not with
  what is left of it. With \<open>expected_num = 2\<close>, one method in \<open>a.py\<close> and two in
  \<open>b.py\<close>, three entries are returned.
\<close>

theorem expected_num_exceeded:
  "map_sum id (map method_name)
     (find_method_in_packages
        (one_package [(''a.py'', Inr (OtherNode [ClassDef (ascii ''A'') [def_of ''f'']])),
                      (''b.py'', Inr (OtherNode [ClassDef (ascii ''B'') [def_of ''g'', def_of ''h'']]))])
        [ascii ''pkg''] (ascii ''*'') None 2)
   = Inr [ascii ''f'', ascii ''g'', ascii ''h'']"
  by (simp add: find_method_in_packages_def find_methods_in_package_def find_methods_in_file_def
        one_package_def str_endswith_def os_path_join_def ascii_simps ast_walk_def def_of_def
        limit_reached_def)

end
